theory Spec2Isabelle
  imports Main "HOL-Library.Sublist"
begin

section \<open>Python strings\<close>

text \<open>
  A Python \<open>str\<close> is modelled as a \<open>string\<close>; a character outside ASCII is the
  sequence of its UTF-8 bytes.
\<close>

text \<open>\<open>sub in s\<close> for two strings: \<open>sub\<close> occurs in \<open>s\<close> as a contiguous run.\<close>

fun str_contains :: "string \<Rightarrow> string \<Rightarrow> bool" where
  "str_contains sub [] = (sub = [])"
| "str_contains sub (c # cs) = (prefix sub (c # cs) \<or> str_contains sub cs)"

text \<open>
  \<open>s.replace(old, new)\<close>: every non-overlapping occurrence of \<open>old\<close>, scanning from the
  left, is replaced by \<open>new\<close>. With an empty \<open>old\<close> Python inserts \<open>new\<close> before
  every character and at the end.
\<close>

function str_replace :: "string \<Rightarrow> string \<Rightarrow> string \<Rightarrow> string" where
  "str_replace old new s =
     (if old = [] then new @ concat (map (\<lambda>c. c # new) s)
      else if s = [] then []
      else if prefix old s then new @ str_replace old new (drop (length old) s)
      else hd s # str_replace old new (tl s))"
  by pat_completeness auto
termination
  by (relation "measure (\<lambda>(old, new, s). length s)") auto

declare str_replace.simps [simp del]

text \<open>\<open>s.lower()\<close>: the ASCII letters \<open>A\<close>..\<open>Z\<close> become \<open>a\<close>..\<open>z\<close>; every other byte is kept.\<close>

definition lower_char :: "char \<Rightarrow> char" where
  "lower_char c = (if 65 \<le> (of_char c :: nat) \<and> (of_char c :: nat) \<le> 90
                   then char_of ((of_char c :: nat) + 32) else c)"

definition str_lower :: "string \<Rightarrow> string" where
  "str_lower s = map lower_char s"

text \<open>
  \<open>s.strip()\<close> removes leading and trailing white space: the characters for which
  \<open>str.isspace\<close> holds, here by their UTF-8 bytes. They are tab, line feed, vertical tab,
  form feed, carriage return, the separators \<open>0x1c\<close>..\<open>0x1f\<close>, the blank, U+0085,
  U+00A0, U+1680, U+2000..U+200A, U+2028, U+2029, U+202F, U+205F and U+3000.
\<close>

definition space_codes :: "string list" where
  "space_codes =
     [[CHR 0x09], [CHR 0x0A], [CHR 0x0B], [CHR 0x0C], [CHR 0x0D],
      [CHR 0x1C], [CHR 0x1D], [CHR 0x1E], [CHR 0x1F], [CHR 0x20],
      [CHR 0xC2, CHR 0x85], [CHR 0xC2, CHR 0xA0], [CHR 0xE1, CHR 0x9A, CHR 0x80],
      [CHR 0xE2, CHR 0x80, CHR 0x80], [CHR 0xE2, CHR 0x80, CHR 0x81],
      [CHR 0xE2, CHR 0x80, CHR 0x82], [CHR 0xE2, CHR 0x80, CHR 0x83],
      [CHR 0xE2, CHR 0x80, CHR 0x84], [CHR 0xE2, CHR 0x80, CHR 0x85],
      [CHR 0xE2, CHR 0x80, CHR 0x86], [CHR 0xE2, CHR 0x80, CHR 0x87],
      [CHR 0xE2, CHR 0x80, CHR 0x88], [CHR 0xE2, CHR 0x80, CHR 0x89],
      [CHR 0xE2, CHR 0x80, CHR 0x8A], [CHR 0xE2, CHR 0x80, CHR 0xA8],
      [CHR 0xE2, CHR 0x80, CHR 0xA9], [CHR 0xE2, CHR 0x80, CHR 0xAF],
      [CHR 0xE2, CHR 0x81, CHR 0x9F], [CHR 0xE3, CHR 0x80, CHR 0x80]]"

text \<open>The text without the white space it starts with; \<open>codes\<close> are the byte
  sequences that count as white space.\<close>

function drop_spaces :: "string list \<Rightarrow> string \<Rightarrow> string" where
  "drop_spaces codes s =
     (case find (\<lambda>code. code \<noteq> [] \<and> prefix code s) codes of
        None \<Rightarrow> s
      | Some code \<Rightarrow> drop_spaces codes (drop (length code) s))"
  by pat_completeness auto
termination
  by (relation "measure (\<lambda>(codes, s). length s)") (auto simp: find_Some_iff prefix_def)

declare drop_spaces.simps [simp del]

definition str_strip :: "string \<Rightarrow> string" where
  "str_strip s = rev (drop_spaces (map rev space_codes) (rev (drop_spaces space_codes s)))"

text \<open>Decimal and hexadecimal digits, and \<open>str(n)\<close> for an integer.\<close>

definition digit_char :: "nat \<Rightarrow> char" where
  "digit_char d = ''0123456789abcdef'' ! d"

fun dec_nat :: "nat \<Rightarrow> string" where
  "dec_nat n = (if n < 10 then [digit_char n] else dec_nat (n div 10) @ [digit_char (n mod 10)])"

declare dec_nat.simps [simp del]

definition dec_int :: "int \<Rightarrow> string" where
  "dec_int i = (if i < 0 then CHR ''-'' # dec_nat (nat (- i)) else dec_nat (nat i))"

text \<open>A text between single quotes.\<close>

definition quoted :: "string \<Rightarrow> string" where
  "quoted s = CHR 0x27 # s @ [CHR 0x27]"

text \<open>
  \<open>repr(s)\<close> of a string: single quotes, unless the string holds a single quote and no
  double quote; the quote in use and the backslash are escaped, tab, line feed and
  carriage return are written with their letters, any other control character and
  \<open>0x7f\<close> as a two-digit hexadecimal escape. Bytes from \<open>0x80\<close> on are kept, as
  Python keeps the printable characters outside ASCII; the escapes that Python writes
  for the characters outside ASCII that are not printable (U+0085 or U+200B, say) are
  not modelled.
\<close>

definition repr_quote :: "string \<Rightarrow> char" where
  "repr_quote s = (if CHR 0x27 \<in> set s \<and> CHR 0x22 \<notin> set s then CHR 0x22 else CHR 0x27)"

definition repr_char :: "char \<Rightarrow> char \<Rightarrow> string" where
  "repr_char q c =
     (if c = q \<or> c = CHR 0x5C then [CHR 0x5C, c]
      else if c = CHR 0x09 then [CHR 0x5C, CHR ''t'']
      else if c = CHR 0x0A then [CHR 0x5C, CHR ''n'']
      else if c = CHR 0x0D then [CHR 0x5C, CHR ''r'']
      else if (of_char c :: nat) < 32 \<or> (of_char c :: nat) = 127
        then [CHR 0x5C, CHR ''x'', digit_char ((of_char c :: nat) div 16),
              digit_char ((of_char c :: nat) mod 16)]
      else [c])"

definition str_repr :: "string \<Rightarrow> string" where
  "str_repr s = repr_quote s # concat (map (repr_char (repr_quote s)) s) @ [repr_quote s]"

text \<open>\<open>sep.join(xs)\<close>.\<close>

fun str_join :: "string \<Rightarrow> string list \<Rightarrow> string" where
  "str_join sep [] = []"
| "str_join sep [x] = x"
| "str_join sep (x # y # ys) = x @ sep @ str_join sep (y # ys)"

section \<open>Python values and the dynamic operations the scripts use\<close>

text \<open>
  What \<open>json.loads\<close> returns and what the scripts build from it: \<open>None\<close>, booleans,
  integers, strings, lists and dictionaries with string keys. A dictionary is an
  association list in insertion order with distinct keys. JSON numbers with a fraction
  are not modelled; no field the scripts inspect is one.
\<close>

datatype pyval =
    PNone
  | PBool bool
  | PInt int
  | PStr string
  | PList "pyval list"
  | PDict "(string \<times> pyval) list"

text \<open>An exception that \<open>except Exception\<close> catches: its class and \<open>str(e)\<close>.\<close>

datatype exc_class =
    ValueError | AttributeError | KeyError | IndexError | TypeError
  | JSONDecodeError | UnicodeDecodeError | RecursionError | URLError | RequestException
  | PlainException

datatype exc = Exc exc_class string

fun exc_str :: "exc \<Rightarrow> string" where
  "exc_str (Exc c m) = m"

text \<open>Whether \<open>except json.JSONDecodeError\<close> catches the exception.\<close>

fun is_json_decode_error :: "exc \<Rightarrow> bool" where
  "is_json_decode_error (Exc c m) = (c = JSONDecodeError)"

definition bindE :: "exc + 'a \<Rightarrow> ('a \<Rightarrow> exc + 'b) \<Rightarrow> exc + 'b" where
  "bindE m f = (case m of Inl e \<Rightarrow> Inl e | Inr x \<Rightarrow> f x)"

fun type_name :: "pyval \<Rightarrow> string" where
  "type_name PNone = ''NoneType''"
| "type_name (PBool b) = ''bool''"
| "type_name (PInt i) = ''int''"
| "type_name (PStr s) = ''str''"
| "type_name (PList xs) = ''list''"
| "type_name (PDict kvs) = ''dict''"

text \<open>The truth value of an object under \<open>if\<close>, \<open>and\<close>, \<open>or\<close> and \<open>not\<close>.\<close>

fun truthy :: "pyval \<Rightarrow> bool" where
  "truthy PNone = False"
| "truthy (PBool b) = b"
| "truthy (PInt i) = (i \<noteq> 0)"
| "truthy (PStr s) = (s \<noteq> [])"
| "truthy (PList xs) = (xs \<noteq> [])"
| "truthy (PDict kvs) = (kvs \<noteq> [])"

text \<open>\<open>repr(v)\<close> and \<open>str(v)\<close>; the latter is also what an f-string writes for \<open>{v}\<close>.\<close>

fun py_repr :: "pyval \<Rightarrow> string"
  and py_repr_list :: "pyval list \<Rightarrow> string list"
  and py_repr_items :: "(string \<times> pyval) list \<Rightarrow> string list" where
  "py_repr PNone = ''None''"
| "py_repr (PBool b) = (if b then ''True'' else ''False'')"
| "py_repr (PInt i) = dec_int i"
| "py_repr (PStr s) = str_repr s"
| "py_repr (PList xs) = ''['' @ str_join '', '' (py_repr_list xs) @ '']''"
| "py_repr (PDict kvs) = ''{'' @ str_join '', '' (py_repr_items kvs) @ ''}''"
| "py_repr_list [] = []"
| "py_repr_list (x # xs) = py_repr x # py_repr_list xs"
| "py_repr_items [] = []"
| "py_repr_items ((k, v) # kvs) = (str_repr k @ '': '' @ py_repr v) # py_repr_items kvs"

definition py_str :: "pyval \<Rightarrow> string" where
  "py_str v = (case v of PStr s \<Rightarrow> s | _ \<Rightarrow> py_repr v)"

text \<open>
  \<open>None\<close> or a string, as \<open>os.environ.get\<close> and an optional argument give it: its
  truth value, its text in an f-string, and \<open>x or default\<close>.
\<close>

definition opt_truthy :: "string option \<Rightarrow> bool" where
  "opt_truthy x = (case x of None \<Rightarrow> False | Some s \<Rightarrow> s \<noteq> [])"

definition opt_str :: "string option \<Rightarrow> string" where
  "opt_str x = (case x of None \<Rightarrow> ''None'' | Some s \<Rightarrow> s)"

definition opt_or :: "string option \<Rightarrow> string \<Rightarrow> string" where
  "opt_or x d = (case x of None \<Rightarrow> d | Some s \<Rightarrow> if s = [] then d else s)"

text \<open>The messages of the interpreter's own exceptions, as CPython 3.12 words them.\<close>

definition no_attribute :: "pyval \<Rightarrow> string \<Rightarrow> exc" where
  "no_attribute v a =
     Exc AttributeError (quoted (type_name v) @ '' object has no attribute '' @ quoted a)"

definition not_subscriptable :: "pyval \<Rightarrow> exc" where
  "not_subscriptable v = Exc TypeError (quoted (type_name v) @ '' object is not subscriptable'')"

text \<open>\<open>v.get(k, d)\<close>; \<open>v.get(k)\<close> is \<open>py_get v k PNone\<close>.\<close>

definition py_get :: "pyval \<Rightarrow> string \<Rightarrow> pyval \<Rightarrow> exc + pyval" where
  "py_get v k d =
     (case v of
        PDict kvs \<Rightarrow> Inr (case map_of kvs k of Some x \<Rightarrow> x | None \<Rightarrow> d)
      | _ \<Rightarrow> Inl (no_attribute v ''get''))"

text \<open>\<open>v[k]\<close> for a string key \<open>k\<close>.\<close>

definition py_item :: "pyval \<Rightarrow> string \<Rightarrow> exc + pyval" where
  "py_item v k =
     (case v of
        PDict kvs \<Rightarrow>
          (case map_of kvs k of Some x \<Rightarrow> Inr x | None \<Rightarrow> Inl (Exc KeyError (str_repr k)))
      | PList xs \<Rightarrow> Inl (Exc TypeError ''list indices must be integers or slices, not str'')
      | PStr s \<Rightarrow> Inl (Exc TypeError (''string indices must be integers, not '' @ quoted ''str''))
      | _ \<Rightarrow> Inl (not_subscriptable v))"

text \<open>\<open>v[0]\<close>. The keys of a dictionary are strings, so \<open>0\<close> is never one of them.\<close>

definition py_item0 :: "pyval \<Rightarrow> exc + pyval" where
  "py_item0 v =
     (case v of
        PList xs \<Rightarrow>
          (case xs of [] \<Rightarrow> Inl (Exc IndexError ''list index out of range'') | x # _ \<Rightarrow> Inr x)
      | PStr s \<Rightarrow>
          (case s of [] \<Rightarrow> Inl (Exc IndexError ''string index out of range'')
           | c # _ \<Rightarrow> Inr (PStr [c]))
      | PDict kvs \<Rightarrow> Inl (Exc KeyError ''0'')
      | _ \<Rightarrow> Inl (not_subscriptable v))"

text \<open>\<open>len(v)\<close>.\<close>

definition py_len :: "pyval \<Rightarrow> exc + nat" where
  "py_len v =
     (case v of
        PList xs \<Rightarrow> Inr (length xs)
      | PStr s \<Rightarrow> Inr (length s)
      | PDict kvs \<Rightarrow> Inr (length kvs)
      | _ \<Rightarrow> Inl (Exc TypeError (''object of type '' @ quoted (type_name v) @ '' has no len()'')))"

text \<open>
  The elements \<open>for x in v\<close> runs over: a dictionary yields its keys, a string its
  characters.
\<close>

definition py_iter :: "pyval \<Rightarrow> exc + pyval list" where
  "py_iter v =
     (case v of
        PList xs \<Rightarrow> Inr xs
      | PDict kvs \<Rightarrow> Inr (map (\<lambda>kv. PStr (fst kv)) kvs)
      | PStr s \<Rightarrow> Inr (map (\<lambda>c. PStr [c]) s)
      | _ \<Rightarrow> Inl (Exc TypeError (quoted (type_name v) @ '' object is not iterable'')))"

text \<open>
  \<open>lit in v\<close> for a string literal \<open>lit\<close>: a substring test on a string, membership in
  a list, key membership in a dictionary.
\<close>

definition py_in :: "string \<Rightarrow> pyval \<Rightarrow> exc + bool" where
  "py_in lit v =
     (case v of
        PStr s \<Rightarrow> Inr (str_contains lit s)
      | PList xs \<Rightarrow> Inr (PStr lit \<in> set xs)
      | PDict kvs \<Rightarrow> Inr (lit \<in> set (map fst kvs))
      | _ \<Rightarrow> Inl (Exc TypeError (''argument of type '' @ quoted (type_name v) @ '' is not iterable'')))"

text \<open>\<open>v.lower()\<close>.\<close>

definition py_lower :: "pyval \<Rightarrow> exc + string" where
  "py_lower v = (case v of PStr s \<Rightarrow> Inr (str_lower s) | _ \<Rightarrow> Inl (no_attribute v ''lower''))"

text \<open>\<open>d[k] = v\<close> on a dictionary: an existing key keeps its place.\<close>

fun dict_set :: "(string \<times> 'v) list \<Rightarrow> string \<Rightarrow> 'v \<Rightarrow> (string \<times> 'v) list" where
  "dict_set [] k v = [(k, v)]"
| "dict_set ((k', v') # kvs) k v =
     (if k' = k then (k, v) # kvs else (k', v') # dict_set kvs k v)"

section \<open>Address normalizer\<close>

text \<open>
  \<open>VapiExotelIntegrator.convert_vapi_fqdn\<close> (vapi_exotel_integration.py):
  \<^verbatim>\<open>if '@' in vapi_fqdn: return vapi_fqdn.replace('@', '.')\<close>, else the input.
\<close>

definition convert_vapi_fqdn :: "string \<Rightarrow> string" where
  "convert_vapi_fqdn vapi_fqdn =
     (if str_contains ''@'' vapi_fqdn then str_replace ''@'' ''.'' vapi_fqdn else vapi_fqdn)"

text \<open>
  \<open>VapiExotelProductionIntegrator.convert_vapi_fqdn\<close> (production_integration_script.py):
  \<^verbatim>\<open>return vapi_fqdn.replace('@', '.')\<close>.
\<close>

definition prod_convert_vapi_fqdn :: "string \<Rightarrow> string" where
  "prod_convert_vapi_fqdn vapi_fqdn = str_replace ''@'' ''.'' vapi_fqdn"

section \<open>The network and the console\<close>

text \<open>
  A request as the scripts hand it to \<open>urlopen\<close>. The \<open>Authorization\<close> header is kept
  by what it is built from: \<open>Basic c\<close> stands for \<open>Basic\<close> followed by the base64 text
  of the credentials \<open>c\<close>. A body is kept before its serialisation: the payload that
  \<open>json.dumps\<close> writes, or the form fields that \<open>urlencode\<close> writes.
\<close>

datatype auth = Basic string | Bearer string

datatype body = JsonBody pyval | FormBody "(string \<times> string) list"

record request =
  req_method :: string
  req_url :: string
  req_auth :: auth
  req_content_type :: string
  req_body :: "body option"

text \<open>
  The body of a response under \<open>read().decode('utf-8')\<close>: the text it decodes to, or
  the exception that reading or decoding raises (a \<open>UnicodeDecodeError\<close> on bytes that
  are not UTF-8).
\<close>

datatype raw_body = Text string | Unreadable exc

definition read_text :: "raw_body \<Rightarrow> exc + string" where
  "read_text b = (case b of Text t \<Rightarrow> Inr t | Unreadable e \<Rightarrow> Inl e)"

text \<open>
  What \<open>urlopen\<close> does with a request: a response with a 2xx status and its body, an
  \<open>HTTPError\<close> with its status code, reason and body, or another exception (a
  \<open>URLError\<close>, say) with its text.
\<close>

datatype http_reply =
    Http_2xx raw_body
  | Http_Error nat string raw_body
  | Url_Error string

text \<open>
  What the \<open>requests\<close> library does with a request: a response with its status code
  and text, whatever the status, or an exception with its text.
\<close>

datatype requests_reply =
    Response nat string
  | Requests_Error string

text \<open>An element of \<open>xml.etree.ElementTree\<close>: its tag, its text and its children.\<close>

datatype xml = Elem string "string option" "xml list"

text \<open>
  The collaborators outside the repository. The reply to a request may depend on the
  requests sent before it. \<open>json_loads\<close> gives \<open>Inl\<close> of the exception where
  \<open>json.loads\<close> (or \<open>response.json()\<close>) raises: a \<open>JSONDecodeError\<close> on a text that is
  not JSON, or another one (a \<open>RecursionError\<close> on a text nested too deep).
  \<open>et_fromstring\<close> gives \<open>Inl\<close> of the message where \<open>ET.fromstring\<close> raises;
  \<open>json_dumps_indent\<close> is \<open>json.dumps(payload, indent=2)\<close>.
\<close>

record platform =
  urlopen :: "request list \<Rightarrow> request \<Rightarrow> http_reply"
  requests_send :: "request list \<Rightarrow> request \<Rightarrow> requests_reply"
  json_loads :: "string \<Rightarrow> exc + pyval"
  json_dumps_indent :: "pyval \<Rightarrow> string"
  et_fromstring :: "string \<Rightarrow> string + xml"

text \<open>What a run has done so far: the requests sent, oldest first, and the texts printed,
  one entry for each call of \<open>print\<close>. The console is taken to accept every text.\<close>

record world =
  sent :: "request list"
  stdout :: "string list"

definition world0 :: world where
  "world0 = \<lparr>sent = [], stdout = []\<rparr>"

definition py_print :: "string \<Rightarrow> world \<Rightarrow> world" where
  "py_print line w = w\<lparr>stdout := stdout w @ [line]\<rparr>"

definition py_prints :: "string list \<Rightarrow> world \<Rightarrow> world" where
  "py_prints lines w = w\<lparr>stdout := stdout w @ lines\<rparr>"

text \<open>The symbols the scripts print, as their UTF-8 bytes.\<close>

definition sym_target :: string where "sym_target = [CHR 0xF0, CHR 0x9F, CHR 0x8E, CHR 0xAF]"
definition sym_check :: string where "sym_check = [CHR 0xE2, CHR 0x9C, CHR 0x85]"
definition sym_cross :: string where "sym_cross = [CHR 0xE2, CHR 0x9D, CHR 0x8C]"
definition sym_tube :: string where "sym_tube = [CHR 0xF0, CHR 0x9F, CHR 0xA7, CHR 0xAA]"
definition sym_arrow :: string where "sym_arrow = [CHR 0xE2, CHR 0x86, CHR 0x92]"
definition sym_search :: string where "sym_search = [CHR 0xF0, CHR 0x9F, CHR 0x94, CHR 0x8D]"
definition sym_cycle :: string where "sym_cycle = [CHR 0xF0, CHR 0x9F, CHR 0x94, CHR 0x84]"
definition sym_clip :: string where "sym_clip = [CHR 0xF0, CHR 0x9F, CHR 0x93, CHR 0x8B]"
definition sym_warn :: string where
  "sym_warn = [CHR 0xE2, CHR 0x9A, CHR 0xA0, CHR 0xEF, CHR 0xB8, CHR 0x8F]"
definition sym_party :: string where "sym_party = [CHR 0xF0, CHR 0x9F, CHR 0x8E, CHR 0x89]"
definition sym_phone :: string where "sym_phone = [CHR 0xF0, CHR 0x9F, CHR 0x93, CHR 0x9E]"

section \<open>vapi_exotel_integration.py: \<open>VapiExotelIntegrator\<close>\<close>

text \<open>\<open>self.config\<close>, with the types \<open>_load_config\<close> gives its entries.\<close>

record config =
  auth_key :: "string option"
  auth_token :: "string option"
  domain :: string
  account_sid :: "string option"
  default_trunk :: string

definition load_config :: "(string \<Rightarrow> string option) \<Rightarrow> config" where
  "load_config env =
     \<lparr>auth_key = env ''EXO_AUTH_KEY'',
      auth_token = env ''EXO_AUTH_TOKEN'',
      domain = (case env ''EXO_SUBSCRIBIX_DOMAIN'' of None \<Rightarrow> ''api.in.exotel.com'' | Some d \<Rightarrow> d),
      account_sid = env ''EXO_ACCOUNT_SID'',
      default_trunk = (case env ''EXO_DEFAULT_TRUNK'' of None \<Rightarrow> ''your_trunk_id_here'' | Some t \<Rightarrow> t)\<rparr>"

text \<open>\<open>self.base_url\<close>, set in \<open>__init__\<close>.\<close>

definition base_url :: "config \<Rightarrow> string" where
  "base_url cfg = ''https://'' @ domain cfg @ ''/v2/accounts/'' @ opt_str (account_sid cfg)"

definition missing_credentials :: string where
  "missing_credentials = ''Missing required Exotel credentials. Set EXO_AUTH_KEY, EXO_AUTH_TOKEN, and EXO_ACCOUNT_SID environment variables.''"

text \<open>The \<open>raise Exception(f"Exotel API Error {e.code}: {error_msg}")\<close> of the request
  clients.\<close>

definition api_error :: "nat \<Rightarrow> string \<Rightarrow> exc" where
  "api_error code error_msg = Exc PlainException (''Exotel API Error '' @ dec_nat code @ '': '' @ error_msg)"

text \<open>
  The request that \<open>_make_request\<close> and \<open>make_exotel_request\<close> build: basic
  authentication, a JSON content type, and the payload as body when it is given and not
  empty.
\<close>

definition json_request :: "string \<Rightarrow> string \<Rightarrow> string \<Rightarrow> pyval option \<Rightarrow> request" where
  "json_request method url credentials payload =
     \<lparr>req_method = method,
      req_url = url,
      req_auth = Basic credentials,
      req_content_type = ''application/json'',
      req_body = (case payload of None \<Rightarrow> None
                  | Some p \<Rightarrow> if truthy p then Some (JsonBody p) else None)\<rparr>"

text \<open>
  \<open>_make_request\<close>: the credentials are checked first; then the request is sent. A 2xx
  body is read and goes through \<open>json.loads\<close>; neither exception is caught here. On an
  \<open>HTTPError\<close> the handler reads the body and raises the exception \<open>api_error\<close>; when
  reading the body raises, that exception leaves the handler instead.
\<close>

definition make_request ::
  "platform \<Rightarrow> config \<Rightarrow> string \<Rightarrow> string \<Rightarrow> pyval option \<Rightarrow> world \<Rightarrow> (exc + pyval) \<times> world" where
  "make_request P cfg method endpoint payload w =
     (if \<not> (opt_truthy (auth_key cfg) \<and> opt_truthy (auth_token cfg) \<and> opt_truthy (account_sid cfg))
      then (Inl (Exc ValueError missing_credentials), w)
      else
        let req = json_request method (base_url cfg @ endpoint)
                    (opt_str (auth_key cfg) @ '':'' @ opt_str (auth_token cfg)) payload;
            w' = w\<lparr>sent := sent w @ [req]\<rparr>
        in case urlopen P (sent w) req of
             Http_2xx body \<Rightarrow> (bindE (read_text body) (json_loads P), w')
           | Http_Error code reason body \<Rightarrow>
               (bindE (read_text body) (\<lambda>error_msg. Inl (api_error code error_msg)), w')
           | Url_Error m \<Rightarrow> (Inl (Exc URLError m), w'))"

text \<open>The SIP destination that \<open>add_vapi_destination\<close> and \<open>setup_fqdn_integration\<close>
  build: \<^verbatim>\<open>f'{converted_fqdn}:5060;transport=tcp'\<close>.\<close>

definition sip_destination_of :: "string \<Rightarrow> string" where
  "sip_destination_of converted_fqdn = converted_fqdn @ '':5060;transport=tcp''"

definition destinations_payload :: "string \<Rightarrow> pyval" where
  "destinations_payload sip_destination =
     PDict [(''destinations'', PList [PDict [(''destination'', PStr sip_destination)]])]"

definition failure :: "pyval \<Rightarrow> pyval" where
  "failure err = PDict [(''success'', PBool False), (''error'', err)]"

text \<open>
  The \<open>try\<close> block of \<open>add_vapi_destination\<close> after the request has returned
  \<open>result\<close>: the first item of \<open>result['response']\<close> decides.
\<close>

definition destination_outcome :: "pyval \<Rightarrow> string \<Rightarrow> string \<Rightarrow> exc + pyval" where
  "destination_outcome result sip_destination trunk =
     bindE (py_get result ''response'' PNone) (\<lambda>response.
     bindE (if truthy response then bindE (py_len response) (\<lambda>n. Inr (n > 0)) else Inr False)
       (\<lambda>present.
     if present then
       bindE (py_item0 response) (\<lambda>response_item.
       bindE (py_get response_item ''status'' PNone) (\<lambda>status.
       if status = PStr ''success'' then
         bindE (py_item response_item ''data'') (\<lambda>data.
         bindE (py_item data ''id'') (\<lambda>destination_id.
         bindE (py_item data ''destination'') (\<lambda>destination.
         Inr (PDict [(''success'', PBool True),
                     (''destination_id'', destination_id),
                     (''destination'', destination),
                     (''trunk_sid'', PStr trunk)]))))
       else
         bindE (py_get response_item ''error_data'' (PDict [])) (\<lambda>error_data.
         if str_contains ''Duplicate resource'' (py_str error_data) then
           Inr (PDict [(''success'', PBool True),
                       (''message'', PStr ''Destination already exists''),
                       (''destination'', PStr sip_destination),
                       (''trunk_sid'', PStr trunk)])
         else
           bindE (py_get error_data ''message'' (PStr ''Unknown error'')) (\<lambda>message.
           Inr (failure message)))))
     else Inr (failure (PStr ''Invalid API response format''))))"

text \<open>\<open>add_vapi_destination\<close>: any exception of the \<open>try\<close> block becomes a failed
  step result that carries \<open>str(e)\<close>.\<close>

definition add_vapi_destination ::
  "platform \<Rightarrow> config \<Rightarrow> string \<Rightarrow> string option \<Rightarrow> world \<Rightarrow> pyval \<times> world" where
  "add_vapi_destination P cfg vapi_fqdn trunk_sid w =
     (let trunk = opt_or trunk_sid (default_trunk cfg);
          converted_fqdn = convert_vapi_fqdn vapi_fqdn;
          sip_destination = sip_destination_of converted_fqdn;
          payload = destinations_payload sip_destination;
          (r, w') = make_request P cfg ''POST'' (''/trunks/'' @ trunk @ ''/destination-uris'')
                      (Some payload) w
      in (case bindE r (\<lambda>result. destination_outcome result sip_destination trunk) of
            Inr step \<Rightarrow> step
          | Inl e \<Rightarrow> failure (PStr (exc_str e)),
          w'))"

text \<open>The \<open>try\<close> block of \<open>map_phone_number\<close> after the request has returned.\<close>

definition phone_outcome :: "pyval \<Rightarrow> string \<Rightarrow> string \<Rightarrow> exc + pyval" where
  "phone_outcome result phone_number trunk =
     bindE (py_get result ''response'' PNone) (\<lambda>response.
     bindE (if truthy response then
              bindE (py_get response ''status'' PNone) (\<lambda>status.
              Inr (status = PStr ''success''
                   \<or> str_contains ''Duplicate resource'' (py_str response)))
            else Inr False) (\<lambda>mapped.
     if mapped then
       Inr (PDict [(''success'', PBool True),
                   (''phone_number'', PStr phone_number),
                   (''trunk_sid'', PStr trunk),
                   (''message'', PStr ''Phone number mapped successfully'')])
     else Inr (failure (PStr ''Phone number mapping failed''))))"

definition map_phone_number ::
  "platform \<Rightarrow> config \<Rightarrow> string \<Rightarrow> string option \<Rightarrow> world \<Rightarrow> pyval \<times> world" where
  "map_phone_number P cfg phone_number trunk_sid w =
     (let trunk = opt_or trunk_sid (default_trunk cfg);
          payload = PDict [(''phone_number'', PStr phone_number)];
          (r, w') = make_request P cfg ''POST'' (''/trunks/'' @ trunk @ ''/phone-numbers'')
                      (Some payload) w
      in (case bindE r (\<lambda>result. phone_outcome result phone_number trunk) of
            Inr step \<Rightarrow> step
          | Inl e \<Rightarrow> failure (PStr (exc_str e)),
          w'))"

text \<open>\<open>results['steps'][name] = step\<close>.\<close>

definition set_step :: "(string \<times> pyval) list \<Rightarrow> string \<Rightarrow> pyval \<Rightarrow> (string \<times> pyval) list" where
  "set_step results name step =
     (case map_of results ''steps'' of
        Some (PDict steps) \<Rightarrow> dict_set results ''steps'' (PDict (dict_set steps name step))
      | _ \<Rightarrow> results)"

text \<open>
  \<open>configure_vapi_integration\<close>. It has no \<open>try\<close>: a \<open>KeyError\<close> of
  \<open>dest_result['success']\<close> or \<open>dest_result['error']\<close> would leave it as an exception.
\<close>

definition configure_vapi_integration ::
  "platform \<Rightarrow> config \<Rightarrow> string \<Rightarrow> string \<Rightarrow> string option \<Rightarrow> world \<Rightarrow> (exc + pyval) \<times> world" where
  "configure_vapi_integration P cfg vapi_fqdn phone_number trunk_sid w =
     (let results = [(''vapi_fqdn'', PStr vapi_fqdn),
                     (''phone_number'', PStr phone_number),
                     (''converted_fqdn'', PStr (convert_vapi_fqdn vapi_fqdn)),
                     (''trunk_sid'', PStr (opt_or trunk_sid (default_trunk cfg))),
                     (''steps'', PDict [])];
          (dest_result, w1) = add_vapi_destination P cfg vapi_fqdn trunk_sid w;
          results1 = set_step results ''destination'' dest_result
      in case py_item dest_result ''success'' of
           Inl e \<Rightarrow> (Inl e, w1)
         | Inr dest_ok \<Rightarrow>
             if \<not> truthy dest_ok then
               (bindE (py_item dest_result ''error'') (\<lambda>err.
                  Inr (PDict (dict_set (dict_set results1 ''success'' (PBool False)) ''error''
                         (PStr (''Failed to add destination: '' @ py_str err))))),
                w1)
             else
               let (phone_result, w2) = map_phone_number P cfg phone_number trunk_sid w1;
                   results2 = set_step results1 ''phone_mapping'' phone_result
               in case py_item phone_result ''success'' of
                    Inl e \<Rightarrow> (Inl e, w2)
                  | Inr phone_ok \<Rightarrow>
                      if \<not> truthy phone_ok then
                        (bindE (py_item phone_result ''error'') (\<lambda>err.
                           Inr (PDict (dict_set (dict_set results2 ''success'' (PBool False))
                                  ''error''
                                  (PStr (''Failed to map phone number: '' @ py_str err))))),
                         w2)
                      else
                        (Inr (PDict (dict_set (dict_set results2 ''success'' (PBool True))
                                ''message''
                                (PStr ''Vapi-Exotel integration configured successfully''))),
                         w2))"

text \<open>
  \<open>main\<close> with the parsed arguments \<open>--fqdn\<close>, \<open>--phone\<close> and \<open>--trunk\<close>, and the
  environment of the process. The result is the exit status with the final world:
  \<open>sys.exit(1)\<close> gives 1, reaching the end gives 0. An exception inside the \<open>try\<close>
  is printed and gives 1.
\<close>

definition main_error :: "exc \<Rightarrow> world \<Rightarrow> nat \<times> world" where
  "main_error e w = (1, py_print (sym_cross @ '' ERROR: '' @ exc_str e) w)"

definition main ::
  "platform \<Rightarrow> (string \<Rightarrow> string option) \<Rightarrow> string \<Rightarrow> string \<Rightarrow> string option \<Rightarrow> world \<Rightarrow> nat \<times> world" where
  "main P env fqdn phone trunk w =
     (let cfg = load_config env;
          w1 = py_prints [sym_target @ '' VAPI-EXOTEL INTEGRATION'',
                          replicate 50 CHR ''='',
                          ''FQDN: '' @ fqdn,
                          ''Phone: '' @ phone,
                          ''Trunk: '' @ opt_or trunk (default_trunk cfg),
                          ''''] w;
          (r, w2) = configure_vapi_integration P cfg fqdn phone trunk w1
      in case r of
           Inl e \<Rightarrow> main_error e w2
         | Inr result \<Rightarrow>
            (case py_item result ''success'' of
               Inl e \<Rightarrow> main_error e w2
             | Inr ok \<Rightarrow>
                if truthy ok then
                  (let w3 = py_print (sym_check @ '' SUCCESS: Integration completed!'') w2
                   in case py_item result ''converted_fqdn'' of
                        Inl e \<Rightarrow> main_error e w3
                      | Inr converted \<Rightarrow>
                         (let w4 = py_prints
                                [''   Converted FQDN: '' @ py_str converted,
                                 ''   SIP Destination: sip:'' @ py_str converted @ '':5060;transport=tcp''] w3
                          in case py_item result ''trunk_sid'' of
                               Inl e \<Rightarrow> main_error e w4
                             | Inr trunk_used \<Rightarrow>
                                (0, py_prints
                                  [''   Trunk: '' @ py_str trunk_used,
                                   '''',
                                   sym_tube @ '' Ready for testing:'',
                                   ''   Call '' @ phone @ '' '' @ sym_arrow @ '' Routes to '' @ py_str converted,
                                   ''   Expected: 33-second+ call with NORMAL_CLEARING status''] w4)))
                else
                  (let w3 = py_print (sym_cross @ '' FAILED: Integration failed!'') w2
                   in case py_get result ''error'' (PStr ''Unknown error'') of
                        Inl e \<Rightarrow> main_error e w3
                      | Inr err \<Rightarrow> (1, py_print (''   Error: '' @ py_str err) w3))))"

section \<open>production_integration_script.py: \<open>VapiExotelProductionIntegrator\<close>\<close>

text \<open>
  \<open>self.config\<close> of the production script, its nested dictionaries flattened. The
  gateway and transport entries, which only \<open>setup_byo_trunk\<close> reads, are left out, and
  with them the \<open>ValueError\<close> that \<open>int()\<close> raises in \<open>load_configuration\<close> when
  \<open>EXOTEL_GATEWAY_PORT\<close> is set to a text that is not a number.
\<close>

record prod_config =
  exotel_auth_key :: "string option"
  exotel_auth_token :: "string option"
  exotel_domain :: string
  exotel_account_sid :: "string option"
  exotel_base_url :: "string option"
  vapi_private_key :: "string option"
  vapi_assistant_id :: "string option"
  vapi_base_url :: string
  integration_phone_number :: "string option"
  integration_vapi_fqdn :: "string option"

definition load_configuration :: "(string \<Rightarrow> string option) \<Rightarrow> prod_config" where
  "load_configuration env =
     (let dom = (case env ''EXO_SUBSCRIBIX_DOMAIN'' of None \<Rightarrow> ''api.in.exotel.com'' | Some d \<Rightarrow> d);
          sid = env ''EXO_ACCOUNT_SID''
      in \<lparr>exotel_auth_key = env ''EXO_AUTH_KEY'',
          exotel_auth_token = env ''EXO_AUTH_TOKEN'',
          exotel_domain = dom,
          exotel_account_sid = sid,
          exotel_base_url =
            (if dom \<noteq> [] \<and> opt_truthy sid
             then Some (''https://'' @ dom @ ''/v2/accounts/'' @ opt_str sid) else None),
          vapi_private_key = env ''VAPI_PRIVATE_KEY'',
          vapi_assistant_id = env ''VAPI_ASSISTANT_ID'',
          vapi_base_url = ''https://api.vapi.ai'',
          integration_phone_number = env ''PHONE_NUMBER'',
          integration_vapi_fqdn = env ''VAPI_FQDN''\<rparr>)"

text \<open>\<open>validate_configuration\<close>: the names of the missing variables are printed.\<close>

definition missing_variables :: "prod_config \<Rightarrow> string list" where
  "missing_variables cfg =
     (if opt_truthy (exotel_auth_key cfg) then [] else [''EXO_AUTH_KEY''])
     @ (if opt_truthy (exotel_auth_token cfg) then [] else [''EXO_AUTH_TOKEN''])
     @ (if opt_truthy (exotel_account_sid cfg) then [] else [''EXO_ACCOUNT_SID''])
     @ (if opt_truthy (vapi_private_key cfg) then [] else [''VAPI_PRIVATE_KEY''])
     @ (if opt_truthy (vapi_assistant_id cfg) then [] else [''VAPI_ASSISTANT_ID''])
     @ (if opt_truthy (integration_phone_number cfg) then [] else [''PHONE_NUMBER''])
     @ (if opt_truthy (integration_vapi_fqdn cfg) then [] else [''VAPI_FQDN''])"

definition validate_configuration :: "prod_config \<Rightarrow> world \<Rightarrow> bool \<times> world" where
  "validate_configuration cfg w =
     (if missing_variables cfg \<noteq> []
      then (False, py_print (sym_cross @ '' Missing required environment variables: ''
                             @ str_join '', '' (missing_variables cfg)) w)
      else (True, w))"

definition opt_val :: "string option \<Rightarrow> pyval" where
  "opt_val x = (case x of None \<Rightarrow> PNone | Some s \<Rightarrow> PStr s)"

text \<open>
  \<open>make_exotel_request\<close>. Nothing is checked before the request is built: a missing
  base URL makes \<open>base_url + endpoint\<close> raise, a missing key or token is written into
  the credentials as the text \<open>None\<close>.
\<close>

definition make_exotel_request ::
  "platform \<Rightarrow> prod_config \<Rightarrow> string \<Rightarrow> string \<Rightarrow> pyval option \<Rightarrow> world \<Rightarrow> (exc + pyval) \<times> world" where
  "make_exotel_request P cfg method endpoint payload w =
     (case exotel_base_url cfg of
        None \<Rightarrow>
          (Inl (Exc TypeError (''unsupported operand type(s) for +: '' @ quoted ''NoneType''
                               @ '' and '' @ quoted ''str'')), w)
      | Some base \<Rightarrow>
          let req = json_request method (base @ endpoint)
                      (opt_str (exotel_auth_key cfg) @ '':'' @ opt_str (exotel_auth_token cfg))
                      payload;
              w' = w\<lparr>sent := sent w @ [req]\<rparr>
          in case urlopen P (sent w) req of
               Http_2xx body \<Rightarrow> (bindE (read_text body) (json_loads P), w')
             | Http_Error code reason body \<Rightarrow>
                 (bindE (read_text body) (\<lambda>error_response. Inl (api_error code error_response)),
                  w')
             | Url_Error m \<Rightarrow> (Inl (Exc URLError m), w'))"

text \<open>
  The loop of \<open>get_active_trunk\<close> over \<open>result['response']\<close>: the first entry with
  status \<open>success\<close> and a non-empty \<open>data\<close> whose own status, in lower case, is
  \<open>active\<close> ends the search with its \<open>trunk_sid\<close> and its name.
\<close>

fun find_active_trunk :: "pyval list \<Rightarrow> exc + (pyval \<times> pyval) option" where
  "find_active_trunk [] = Inr None"
| "find_active_trunk (trunk_response # rest) =
     bindE (py_get trunk_response ''status'' PNone) (\<lambda>status.
     bindE (if status = PStr ''success''
            then bindE (py_get trunk_response ''data'' PNone) (\<lambda>d. Inr (truthy d))
            else Inr False) (\<lambda>has_data.
     if has_data then
       bindE (py_item trunk_response ''data'') (\<lambda>trunk.
       bindE (py_get trunk ''status'' (PStr [])) (\<lambda>trunk_status.
       bindE (py_lower trunk_status) (\<lambda>lowered.
       if lowered = ''active'' then
         bindE (py_get trunk ''trunk_sid'' PNone) (\<lambda>trunk_sid.
         bindE (py_get trunk ''trunk_name'' (PStr ''Unnamed'')) (\<lambda>trunk_name.
         Inr (Some (trunk_sid, trunk_name))))
       else find_active_trunk rest)))
     else find_active_trunk rest))"

text \<open>The \<open>try\<close> block of \<open>get_active_trunk\<close> after the request has returned.\<close>

definition active_trunk_of :: "pyval \<Rightarrow> exc + (pyval \<times> pyval) option" where
  "active_trunk_of result =
     (if truthy result then
        bindE (py_get result ''response'' PNone) (\<lambda>response.
        if truthy response then bindE (py_iter response) find_active_trunk else Inr None)
      else Inr None)"

text \<open>\<open>get_active_trunk\<close>: the identifier found, or \<open>None\<close>; every exception gives
  \<open>None\<close>.\<close>

definition get_active_trunk :: "platform \<Rightarrow> prod_config \<Rightarrow> world \<Rightarrow> pyval \<times> world" where
  "get_active_trunk P cfg w =
     (let w1 = py_print (sym_search @ '' Finding active Exotel trunk...'') w;
          (r, w2) = make_exotel_request P cfg ''GET'' ''/trunks'' None w1
      in case bindE r active_trunk_of of
           Inr (Some (trunk_sid, trunk_name)) \<Rightarrow>
             (trunk_sid,
              py_print (sym_check @ '' Found active trunk: '' @ py_str trunk_name
                        @ '' ('' @ py_str trunk_sid @ '')'') w2)
         | Inr None \<Rightarrow> (PNone, py_print (sym_cross @ '' No active trunk found'') w2)
         | Inl e \<Rightarrow> (PNone, py_print (sym_cross @ '' Error finding trunk: '' @ exc_str e) w2))"

text \<open>
  The \<open>try\<close> block of the attach step of \<open>setup_fqdn_integration\<close> after the request
  has returned: the line it prints, and the result it returns early, if any.
\<close>

definition prod_attach_outcome :: "pyval \<Rightarrow> exc + (string \<times> pyval option)" where
  "prod_attach_outcome dest_result =
     bindE (py_get dest_result ''response'' PNone) (\<lambda>response.
     bindE (if truthy response then
              bindE (py_item0 response) (\<lambda>item.
              bindE (py_get item ''status'' PNone) (\<lambda>status. Inr (status = PStr ''success'')))
            else Inr False) (\<lambda>added.
     if added then
       bindE (py_item0 response) (\<lambda>item.
       bindE (py_item item ''data'') (\<lambda>dest_data.
       bindE (py_get dest_data ''id'' PNone) (\<lambda>dest_id.
       Inr (sym_check @ '' Destination added successfully! ID: '' @ py_str dest_id, None))))
     else
       bindE (py_get dest_result ''response'' (PList [PDict []])) (\<lambda>response'.
       bindE (py_item0 response') (\<lambda>item.
       bindE (py_get item ''error_data'' (PDict [])) (\<lambda>error_data.
       bindE (py_get error_data ''message'' (PStr [])) (\<lambda>message.
       bindE (py_in ''Duplicate resource'' message) (\<lambda>duplicate.
       if duplicate then Inr (sym_check @ '' Destination already exists (OK)'', None)
       else
         bindE (py_get error_data ''message'' PNone) (\<lambda>shown.
         Inr (sym_cross @ '' Failed to add destination: '' @ py_str shown,
              Some (failure (PStr ''Failed to add destination'')))))))))))"

text \<open>
  \<open>setup_fqdn_integration\<close>. \<open>convert_vapi_fqdn\<close> is called outside every \<open>try\<close>: with
  no \<open>VAPI_FQDN\<close> its \<open>AttributeError\<close> leaves the function.
\<close>

definition setup_fqdn_integration ::
  "platform \<Rightarrow> prod_config \<Rightarrow> world \<Rightarrow> (exc + pyval) \<times> world" where
  "setup_fqdn_integration P cfg w =
     (let vapi_fqdn = integration_vapi_fqdn cfg;
          phone_number = integration_phone_number cfg;
          w1 = py_prints [CHR 0x0A # sym_target @ '' SETTING UP FQDN-BASED INTEGRATION'',
                          replicate 50 CHR ''='',
                          sym_clip @ '' Configuration:'',
                          ''   FQDN: '' @ opt_str vapi_fqdn,
                          ''   Phone: '' @ opt_str phone_number] w
      in case vapi_fqdn of
           None \<Rightarrow> (Inl (no_attribute PNone ''replace''), w1)
         | Some fqdn \<Rightarrow>
            (let converted_fqdn = prod_convert_vapi_fqdn fqdn;
                 sip_destination = sip_destination_of converted_fqdn;
                 w2 = py_prints [''   Converted: '' @ converted_fqdn,
                                 ''   SIP Destination: '' @ sip_destination,
                                 ''''] w1;
                 (trunk_sid, w3) = get_active_trunk P cfg w2
             in if \<not> truthy trunk_sid then (Inr (failure (PStr ''No active trunk found'')), w3)
                else
                  let w4 = py_print (sym_cycle @ '' Adding Vapi destination to trunk...'') w3;
                      (r, w5) = make_exotel_request P cfg ''POST''
                                  (''/trunks/'' @ py_str trunk_sid @ ''/destination-uris'')
                                  (Some (destinations_payload sip_destination)) w4;
                      attach =
                        (case bindE r prod_attach_outcome of
                           Inr verdict \<Rightarrow> verdict
                         | Inl e \<Rightarrow>
                             if str_contains ''Duplicate resource'' (exc_str e)
                             then (sym_check @ '' Destination already exists (OK)'', None)
                             else (sym_cross @ '' Error adding destination: '' @ exc_str e,
                                   Some (failure (PStr (exc_str e)))));
                      w6 = py_print (fst attach) w5
                  in case snd attach of
                       Some early \<Rightarrow> (Inr early, w6)
                     | None \<Rightarrow>
                        let w7 = py_print (sym_cycle @ '' Mapping phone number to trunk...'') w6;
                            (r', w8) = make_exotel_request P cfg ''POST''
                                         (''/trunks/'' @ py_str trunk_sid @ ''/phone-numbers'')
                                         (Some (PDict [(''phone_number'', opt_val phone_number)])) w7
                        in case r' of
                             Inr phone_result \<Rightarrow>
                               (Inr (PDict [(''success'', PBool True),
                                            (''trunk_sid'', trunk_sid),
                                            (''fqdn'', PStr converted_fqdn),
                                            (''sip_destination'', PStr sip_destination),
                                            (''phone_number'', opt_val phone_number)]),
                                py_print (sym_check @ '' Phone number mapped successfully!'') w8)
                           | Inl e \<Rightarrow>
                               if str_contains ''Duplicate resource'' (exc_str e)
                               then
                                 (Inr (PDict [(''success'', PBool True),
                                              (''trunk_sid'', trunk_sid),
                                              (''fqdn'', PStr converted_fqdn),
                                              (''sip_destination'', PStr sip_destination),
                                              (''phone_number'', opt_val phone_number)]),
                                  py_print (sym_check @ '' Phone number already mapped (OK)'') w8)
                               else
                                 (Inr (failure (PStr (exc_str e))),
                                  py_print (sym_cross @ '' Error mapping phone number: ''
                                            @ exc_str e) w8)))"

text \<open>\<open>s.upper()\<close> on ASCII letters, and \<open>make_vapi_request\<close>, which hands back the
  response whatever its status: its status code and its text.\<close>

definition upper_char :: "char \<Rightarrow> char" where
  "upper_char c = (if 97 \<le> (of_char c :: nat) \<and> (of_char c :: nat) \<le> 122
                   then char_of ((of_char c :: nat) - 32) else c)"

definition make_vapi_request ::
  "platform \<Rightarrow> prod_config \<Rightarrow> string \<Rightarrow> string \<Rightarrow> pyval option \<Rightarrow> world
     \<Rightarrow> (exc + nat \<times> string) \<times> world" where
  "make_vapi_request P cfg method endpoint payload w =
     (if map upper_char method \<notin> {''POST'', ''PATCH'', ''GET''}
      then (Inl (Exc ValueError (''Unsupported HTTP method: '' @ method)), w)
      else
        let req = \<lparr>req_method = map upper_char method,
                   req_url = vapi_base_url cfg @ endpoint,
                   req_auth = Bearer (opt_str (vapi_private_key cfg)),
                   req_content_type = ''application/json'',
                   req_body = (if map upper_char method = ''GET'' then None
                               else map_option JsonBody payload)\<rparr>;
            w' = w\<lparr>sent := sent w @ [req]\<rparr>
        in case requests_send P (sent w) req of
             Response status_code text \<Rightarrow> (Inr (status_code, text), w')
           | Requests_Error m \<Rightarrow> (Inl (Exc RequestException m), w'))"

text \<open>The search of \<open>test_integration\<close> for the resource of the configured number.\<close>

fun find_phone_resource :: "pyval list \<Rightarrow> pyval \<Rightarrow> exc + pyval" where
  "find_phone_resource [] phone_number = Inr PNone"
| "find_phone_resource (phone_resource # rest) phone_number =
     bindE (py_get phone_resource ''number'' PNone) (\<lambda>n.
     if n = phone_number then Inr phone_resource else find_phone_resource rest phone_number)"

definition json_of :: "platform \<Rightarrow> string \<Rightarrow> exc + pyval" where
  "json_of P text = json_loads P text"

text \<open>
  The \<open>try\<close> block of \<open>test_integration\<close>: the lines it prints. Every line is printed
  after the last operation of its branch that can raise.
\<close>

definition outbound_test ::
  "platform \<Rightarrow> prod_config \<Rightarrow> world \<Rightarrow> (exc + string list) \<times> world" where
  "outbound_test P cfg w =
     (case make_vapi_request P cfg ''GET'' ''/phone-number'' None w of
        (Inl e, w1) \<Rightarrow> (Inl e, w1)
      | (Inr (status_code, text), w1) \<Rightarrow>
          if status_code \<noteq> 200
          then (Inr [sym_warn @ ''  Could not retrieve phone number resources''], w1)
          else
            (case bindE (json_of P text) (\<lambda>phone_numbers.
                  bindE (py_iter phone_numbers) (\<lambda>resources.
                  find_phone_resource resources (opt_val (integration_phone_number cfg)))) of
               Inl e \<Rightarrow> (Inl e, w1)
             | Inr our_phone_resource \<Rightarrow>
                 if \<not> truthy our_phone_resource
                 then (Inr [sym_warn @ ''  No phone number resource found for outbound testing''], w1)
                 else
                   (case py_get our_phone_resource ''id'' PNone of
                      Inl e \<Rightarrow> (Inl e, w1)
                    | Inr phone_number_id \<Rightarrow>
                       (case make_vapi_request P cfg ''POST'' ''/call/phone''
                               (Some (PDict [(''assistantId'', opt_val (vapi_assistant_id cfg)),
                                             (''customer'',
                                              PDict [(''number'', PStr ''+1234567890''),
                                                     (''numberE164CheckEnabled'', PBool False)]),
                                             (''phoneNumberId'', phone_number_id)])) w1 of
                          (Inl e, w2) \<Rightarrow> (Inl e, w2)
                        | (Inr (call_status, call_text), w2) \<Rightarrow>
                            if call_status \<noteq> 201
                            then (Inr [sym_warn @ ''  Outbound call test failed: ''
                                       @ dec_nat call_status], w2)
                            else
                              (bindE (json_of P call_text) (\<lambda>call_data.
                               bindE (py_get call_data ''id'' PNone) (\<lambda>call_id.
                               bindE (py_get call_data ''status'' PNone) (\<lambda>call_state.
                               Inr [sym_check @ '' Test outbound call created: '' @ py_str call_id,
                                    ''   Status: '' @ py_str call_state]))),
                               w2)))))"

definition test_integration :: "platform \<Rightarrow> prod_config \<Rightarrow> world \<Rightarrow> pyval \<times> world" where
  "test_integration P cfg w =
     (let w1 = py_prints [CHR 0x0A # sym_tube @ '' TESTING INTEGRATION'',
                          replicate 50 CHR ''='',
                          sym_phone @ '' Test Call Instructions:'',
                          ''   1. Call '' @ opt_str (integration_phone_number cfg) @ '' from any phone'',
                          ''   2. Expected: Vapi assistant should answer within 2-3 seconds'',
                          ''   3. Have a conversation (aim for 33+ seconds)'',
                          ''   4. Check call logs for NORMAL_CLEARING status'',
                          '''',
                          sym_cycle @ '' Testing outbound call creation...''] w;
          (r, w2) = outbound_test P cfg w1
      in (PDict [(''success'', PBool True)],
          case r of
            Inr lines \<Rightarrow> py_prints lines w2
          | Inl e \<Rightarrow> py_print (sym_warn @ ''  Error testing outbound calls: '' @ exc_str e) w2))"

text \<open>
  The branch \<open>--setup-fqdn-only\<close> of \<open>main\<close>, after the integrator has been
  constructed with the configuration \<open>cfg\<close>: the exit status and the final world. An
  exception that nothing catches ends the process with status 1.
\<close>

definition main_setup_fqdn_only :: "platform \<Rightarrow> prod_config \<Rightarrow> world \<Rightarrow> nat \<times> world" where
  "main_setup_fqdn_only P cfg w =
     (case setup_fqdn_integration P cfg w of
        (Inl e, w1) \<Rightarrow> (1, w1)
      | (Inr result, w1) \<Rightarrow>
          (case py_item result ''success'' of
             Inl e \<Rightarrow> (1, w1)
           | Inr ok \<Rightarrow>
               if truthy ok then
                 (0, snd (test_integration P cfg
                            (py_print (CHR 0x0A # sym_party @ '' FQDN Integration complete!'') w1)))
               else
                 (case py_get result ''error'' PNone of
                    Inl e \<Rightarrow> (1, w1)
                  | Inr err \<Rightarrow>
                      (1, py_print (CHR 0x0A # sym_cross @ '' FQDN setup failed: '' @ py_str err) w1))))"

text \<open>The branch \<open>--validate-config\<close> of \<open>main\<close>.\<close>

definition main_validate_config :: "prod_config \<Rightarrow> world \<Rightarrow> nat \<times> world" where
  "main_validate_config cfg w =
     (case validate_configuration cfg w of
        (True, w1) \<Rightarrow> (0, py_print (sym_check @ '' Configuration is valid'') w1)
      | (False, w1) \<Rightarrow> (1, py_print (sym_cross @ '' Configuration validation failed'') w1))"

section \<open>exotel_outbound_calls.py: \<open>ExotelOutboundCaller\<close>\<close>

record caller_config =
  caller_api_key :: "string option"
  caller_auth_token :: "string option"
  caller_account_sid :: "string option"
  caller_domain :: string
  caller_id :: string

definition caller_load_config :: "(string \<Rightarrow> string option) \<Rightarrow> caller_config" where
  "caller_load_config env =
     \<lparr>caller_api_key = env ''EXO_AUTH_KEY'',
      caller_auth_token = env ''EXO_AUTH_TOKEN'',
      caller_account_sid = env ''EXO_ACCOUNT_SID'',
      caller_domain = (case env ''EXO_SUBSCRIBIX_DOMAIN'' of None \<Rightarrow> ''api.in.exotel.com'' | Some d \<Rightarrow> d),
      caller_id = (case env ''EXO_CALLER_ID'' of
                     Some c \<Rightarrow> c
                   | None \<Rightarrow> str_replace ''+91'' ''0''
                               (case env ''PHONE_NUMBER'' of None \<Rightarrow> [] | Some p \<Rightarrow> p))\<rparr>"

text \<open>\<open>_validate_config\<close>: the \<open>ValueError\<close> it raises, if any.\<close>

definition caller_validate_config :: "caller_config \<Rightarrow> exc option" where
  "caller_validate_config cfg =
     (let missing = (if opt_truthy (caller_api_key cfg) then [] else [''api_key''])
                    @ (if opt_truthy (caller_auth_token cfg) then [] else [''auth_token''])
                    @ (if opt_truthy (caller_account_sid cfg) then [] else [''account_sid''])
                    @ (if caller_domain cfg \<noteq> [] then [] else [''domain''])
      in if missing \<noteq> []
         then Some (Exc ValueError (''Missing required configuration: '' @ str_join '', '' missing))
         else if caller_id cfg = []
         then Some (Exc ValueError ''Missing caller_id - set EXO_CALLER_ID or PHONE_NUMBER'')
         else None)"

fun xml_tag :: "xml \<Rightarrow> string" where
  "xml_tag (Elem t x cs) = t"

fun xml_text :: "xml \<Rightarrow> string option" where
  "xml_text (Elem t x cs) = x"

fun xml_children :: "xml \<Rightarrow> xml list" where
  "xml_children (Elem t x cs) = cs"

text \<open>
  \<open>_parse_xml_response\<close>: the tags and texts of the children of the first \<open>Call\<close> child
  of the root; the raw text marked \<open>parsed\<close> when the root has no such child; the raw
  text with the parser's message when the text is not XML.
\<close>

definition parse_xml_response :: "platform \<Rightarrow> string \<Rightarrow> pyval" where
  "parse_xml_response P xml_data =
     (case et_fromstring P xml_data of
        Inl m \<Rightarrow> PDict [(''raw_xml'', PStr xml_data), (''parse_error'', PStr m)]
      | Inr root \<Rightarrow>
          (case find (\<lambda>child. xml_tag child = ''Call'') (xml_children root) of
             Some call_elem \<Rightarrow>
               PDict [(''Call'',
                       PDict (foldl (\<lambda>call_data child.
                                       dict_set call_data (xml_tag child) (opt_val (xml_text child)))
                                [] (xml_children call_elem)))]
           | None \<Rightarrow> PDict [(''raw_xml'', PStr xml_data), (''parsed'', PBool True)]))"

text \<open>The form fields of \<open>_make_exotel_request\<close>: a list value gives one field for each
  of its items, named \<open>key[i]\<close>.\<close>

definition form_fields :: "(string \<times> pyval) list \<Rightarrow> (string \<times> string) list" where
  "form_fields data =
     foldl (\<lambda>form_data (key, v).
              case v of
                PList items \<Rightarrow>
                  foldl (\<lambda>fd (i, item). dict_set fd (key @ ''['' @ dec_nat i @ '']'') (py_str item))
                    form_data (enumerate 0 items)
              | _ \<Rightarrow> dict_set form_data key (py_str v))
       [] data"

text \<open>
  \<open>_make_exotel_request\<close>: the request carries the form fields. A 2xx body is read
  (an exception of the read is not caught) and decoded as JSON; on a
  \<open>JSONDecodeError\<close> it is decoded as XML when the stripped body starts with
  \<open><?xml\<close>, and otherwise handed back as \<open>raw_response\<close> with the status
  \<open>success\<close>; any other exception of \<open>json.loads\<close> is not caught. The handler of an
  \<open>HTTPError\<close> is the one of \<open>_make_request\<close>.
\<close>

definition form_request :: "caller_config \<Rightarrow> string \<Rightarrow> (string \<times> pyval) list \<Rightarrow> request" where
  "form_request cfg endpoint data =
     \<lparr>req_method = ''POST'',
      req_url = ''https://'' @ caller_domain cfg @ ''/v1/Accounts/''
                @ opt_str (caller_account_sid cfg) @ ''/'' @ endpoint,
      req_auth = Basic (opt_str (caller_api_key cfg) @ '':'' @ opt_str (caller_auth_token cfg)),
      req_content_type = ''application/x-www-form-urlencoded'',
      req_body = Some (FormBody (form_fields data))\<rparr>"

definition caller_make_exotel_request ::
  "platform \<Rightarrow> caller_config \<Rightarrow> string \<Rightarrow> (string \<times> pyval) list \<Rightarrow> world \<Rightarrow> (exc + pyval) \<times> world" where
  "caller_make_exotel_request P cfg endpoint data w =
     (let req = form_request cfg endpoint data;
          w' = w\<lparr>sent := sent w @ [req]\<rparr>
      in case urlopen P (sent w) req of
           Http_2xx body \<Rightarrow>
             (case read_text body of
                Inl e \<Rightarrow> (Inl e, w')
              | Inr response_data \<Rightarrow>
                  (case json_loads P response_data of
                     Inr v \<Rightarrow> (Inr v, w')
                   | Inl e \<Rightarrow>
                       if \<not> is_json_decode_error e then (Inl e, w')
                       else if prefix ''<?xml'' (str_strip response_data)
                       then (Inr (parse_xml_response P response_data), w')
                       else (Inr (PDict [(''raw_response'', PStr response_data),
                                         (''status'', PStr ''success'')]), w')))
         | Http_Error code reason body \<Rightarrow>
             (bindE (read_text body) (\<lambda>error_response. Inl (api_error code error_response)), w')
         | Url_Error m \<Rightarrow> (Inl (Exc URLError m), w'))"

section \<open>exotel-vsip-api/python/_client.py\<close>

text \<open>How a call ends: it returns a value, it raises an exception to its caller, or
  \<open>sys.exit\<close> ends the process with a status.\<close>

datatype 'a outcome = Returned 'a | Raised exc | Exited nat

text \<open>\<open>get_base_url\<close>, which runs when the module is imported (\<open>BASE = get_base_url()\<close>).\<close>

definition get_base_url :: "(string \<Rightarrow> string option) \<Rightarrow> world \<Rightarrow> string outcome \<times> world" where
  "get_base_url env w =
     (if \<not> opt_truthy (env ''EXO_SUBSCRIBIX_DOMAIN'') \<or> \<not> opt_truthy (env ''EXO_ACCOUNT_SID'')
      then (Exited 1,
            py_print ''Error: Missing required environment variables (EXO_SUBSCRIBIX_DOMAIN, EXO_ACCOUNT_SID)'' w)
      else
        let url = ''https://'' @ opt_str (env ''EXO_SUBSCRIBIX_DOMAIN'') @ ''/v1/Accounts/''
                  @ opt_str (env ''EXO_ACCOUNT_SID'')
        in (Returned url, py_print (''DEBUG: Base URL: '' @ url) w))"

definition get_auth_header :: "(string \<Rightarrow> string option) \<Rightarrow> world \<Rightarrow> auth outcome \<times> world" where
  "get_auth_header env w =
     (if \<not> opt_truthy (env ''EXO_AUTH_KEY'') \<or> \<not> opt_truthy (env ''EXO_AUTH_TOKEN'')
      then (Exited 1,
            py_print ''Error: Missing required environment variables (EXO_AUTH_KEY, EXO_AUTH_TOKEN)'' w)
      else (Returned (Basic (opt_str (env ''EXO_AUTH_KEY'') @ '':'' @ opt_str (env ''EXO_AUTH_TOKEN''))),
            w))"

text \<open>
  \<open>post\<close>, with the value \<open>base\<close> of \<open>BASE\<close>. \<open>sys.exit\<close> inside \<open>get_auth_header\<close> is
  not an \<open>Exception\<close> and passes both handlers. On an \<open>HTTPError\<close> the status and the
  reason are printed, then the body is read and printed, and the process exits with
  status 1; when reading the body raises, the exception leaves the handler and \<open>post\<close>.
  Any other exception of the \<open>try\<close> block is printed and the process exits with status
  1.
\<close>

text \<open>The request that \<open>post\<close> builds.\<close>

definition post_request :: "string \<Rightarrow> string \<Rightarrow> auth \<Rightarrow> pyval \<Rightarrow> request" where
  "post_request base path auth_header payload =
     \<lparr>req_method = ''POST'',
      req_url = base @ path,
      req_auth = auth_header,
      req_content_type = ''application/json'',
      req_body = Some (JsonBody payload)\<rparr>"

definition post ::
  "platform \<Rightarrow> (string \<Rightarrow> string option) \<Rightarrow> string \<Rightarrow> string \<Rightarrow> pyval \<Rightarrow> world \<Rightarrow> pyval outcome \<times> world" where
  "post P env base path payload w =
     (case get_auth_header env w of
        (Exited n, w1) \<Rightarrow> (Exited n, w1)
      | (Raised e, w1) \<Rightarrow> (Raised e, w1)
      | (Returned auth_header, w1) \<Rightarrow>
          let req = post_request base path auth_header payload;
              w2 = py_prints [''DEBUG: Making request to: '' @ base @ path,
                              ''DEBUG: Payload: '' @ json_dumps_indent P payload] w1;
              w3 = w2\<lparr>sent := sent w2 @ [req]\<rparr>
          in case urlopen P (sent w2) req of
               Http_2xx body \<Rightarrow>
                 (case read_text body of
                    Inl e \<Rightarrow> (Exited 1, py_print (''Error: '' @ exc_str e) w3)
                  | Inr text \<Rightarrow>
                      (let w4 = py_print (''Response: '' @ text) w3
                       in case json_loads P text of
                            Inr v \<Rightarrow> (Returned v, w4)
                          | Inl e \<Rightarrow> (Exited 1, py_print (''Error: '' @ exc_str e) w4)))
             | Http_Error code reason body \<Rightarrow>
                 (let w4 = py_print (''HTTP Error '' @ dec_nat code @ '': '' @ reason) w3
                  in case read_text body of
                       Inr error_body \<Rightarrow> (Exited 1, py_print error_body w4)
                     | Inl e \<Rightarrow> (Raised e, w4))
             | Url_Error m \<Rightarrow> (Exited 1, py_print (''Error: '' @ m) w3))"

text \<open>A script that imports the module and calls \<open>post\<close> once.\<close>

definition import_and_post ::
  "platform \<Rightarrow> (string \<Rightarrow> string option) \<Rightarrow> string \<Rightarrow> pyval \<Rightarrow> world \<Rightarrow> pyval outcome \<times> world" where
  "import_and_post P env path payload w =
     (case get_base_url env w of
        (Exited n, w1) \<Rightarrow> (Exited n, w1)
      | (Raised e, w1) \<Rightarrow> (Raised e, w1)
      | (Returned base, w1) \<Rightarrow> post P env base path payload w1)"

section \<open>Notions of the specification\<close>

text \<open>A step result is a success when its \<open>success\<close> entry is true, a failure when
  that entry is false.\<close>

definition step_succeeded :: "pyval \<Rightarrow> bool" where
  "step_succeeded step = (case py_item step ''success'' of Inr v \<Rightarrow> truthy v | Inl e \<Rightarrow> False)"

definition step_failed :: "pyval \<Rightarrow> bool" where
  "step_failed step = (case py_item step ''success'' of Inr v \<Rightarrow> \<not> truthy v | Inl e \<Rightarrow> False)"



text \<open>What the provider's answer to the trunk list request decodes to.\<close>

definition trunk_list_reply :: "platform \<Rightarrow> prod_config \<Rightarrow> world \<Rightarrow> exc + pyval" where
  "trunk_list_reply P cfg w = fst (make_exotel_request P cfg ''GET'' ''/trunks'' None w)"

text \<open>
  An entry of a trunk list: its trunk (the \<open>data\<close>), the status text of the trunk
  (the empty text when the trunk has no \<open>status\<close>, nothing when the status is not a
  string), and the identifier of the trunk. An entry is well formed when its own status
  is \<open>success\<close> and its trunk is a dictionary with at least one key and a status text.
\<close>

definition entry_data :: "pyval \<Rightarrow> pyval" where
  "entry_data entry = (case py_item entry ''data'' of Inr d \<Rightarrow> d | Inl e \<Rightarrow> PNone)"

definition entry_status :: "pyval \<Rightarrow> string option" where
  "entry_status entry =
     (case py_get (entry_data entry) ''status'' (PStr []) of Inr (PStr s) \<Rightarrow> Some s | _ \<Rightarrow> None)"

definition entry_trunk_sid :: "pyval \<Rightarrow> pyval" where
  "entry_trunk_sid entry =
     (case py_get (entry_data entry) ''trunk_sid'' PNone of Inr v \<Rightarrow> v | Inl e \<Rightarrow> PNone)"

definition well_formed_entry :: "pyval \<Rightarrow> bool" where
  "well_formed_entry entry =
     (py_get entry ''status'' PNone = Inr (PStr ''success'')
      \<and> truthy (entry_data entry) \<and> entry_status entry \<noteq> None)"

text \<open>What the search of \<open>get_active_trunk\<close> hands back for an entry it stops at: the
  identifier of the trunk and its name.\<close>

definition found_trunk :: "pyval \<Rightarrow> pyval \<times> pyval" where
  "found_trunk entry =
     (entry_trunk_sid entry,
      case py_get (entry_data entry) ''trunk_name'' (PStr ''Unnamed'') of
        Inr v \<Rightarrow> v | Inl e \<Rightarrow> PNone)"

text \<open>The status \<open>active\<close> as the specification writes it, and as the code compares
  it, after \<open>lower()\<close>.\<close>

definition status_is_active :: "pyval \<Rightarrow> bool" where
  "status_is_active entry = (entry_status entry = Some ''active'')"

definition status_lowers_to_active :: "pyval \<Rightarrow> bool" where
  "status_lowers_to_active entry = (map_option str_lower (entry_status entry) = Some ''active'')"

section \<open>Example collaborators\<close>

text \<open>Credentials and a default trunk for \<open>VapiExotelIntegrator\<close>.\<close>

definition example_config :: config where
  "example_config =
     \<lparr>auth_key = Some ''key'', auth_token = Some ''token'', domain = ''api.in.exotel.com'',
      account_sid = Some ''acct'', default_trunk = ''trunk1''\<rparr>"

text \<open>The \<open>JSONDecodeError\<close> of \<open>json.loads\<close> on a text that does not start a JSON
  value.\<close>

definition not_json :: exc where
  "not_json = Exc JSONDecodeError ''Expecting value: line 1 column 1 (char 0)''"

text \<open>A platform whose network is unreachable and whose decoders reject every text.\<close>

definition offline :: platform where
  "offline =
     \<lparr>urlopen = (\<lambda>history req. Url_Error ''<urlopen error unreachable>''),
      requests_send = (\<lambda>history req. Requests_Error ''unreachable''),
      json_loads = (\<lambda>text. Inl not_json),
      json_dumps_indent = (\<lambda>v. py_str v),
      et_fromstring = (\<lambda>text. Inl ''syntax error: line 1, column 0'')\<rparr>"

text \<open>A provider that answers every request with status 500 and the body \<open>boom\<close>.\<close>

definition failing_provider :: platform where
  "failing_provider =
     offline\<lparr>urlopen := (\<lambda>history req. Http_Error 500 ''Internal Server Error'' (Text ''boom''))\<rparr>"

text \<open>A provider that answers every request with status 409 and a body that reports a
  duplicate resource.\<close>

definition duplicate_provider :: platform where
  "duplicate_provider =
     offline\<lparr>urlopen := (\<lambda>history req. Http_Error 409 ''Conflict'' (Text ''Duplicate resource''))\<rparr>"

text \<open>
  A provider that accepts the destination and the phone number: the first request of a
  run gets the body \<open>A\<close>, decoded as the success of the attach step, every later one
  the body \<open>B\<close>, decoded as the success of the mapping step.
\<close>

definition attach_accepted :: pyval where
  "attach_accepted =
     PDict [(''response'',
             PList [PDict [(''status'', PStr ''success''),
                           (''data'', PDict [(''id'', PStr ''d1''),
                                             (''destination'',
                                              PStr ''mybot.sip.vapi.ai:5060;transport=tcp'')])]])]"

definition mapping_accepted :: pyval where
  "mapping_accepted = PDict [(''response'', PDict [(''status'', PStr ''success'')])]"

definition accepting_provider :: platform where
  "accepting_provider =
     offline\<lparr>urlopen := (\<lambda>history req. if history = [] then Http_2xx (Text ''A'')
                                          else Http_2xx (Text ''B'')),
             json_loads := (\<lambda>text. if text = ''A'' then Inr attach_accepted
                                    else if text = ''B'' then Inr mapping_accepted
                                    else Inl not_json)\<rparr>"

text \<open>An environment with every variable the scripts read, and the configurations
  loaded from it.\<close>

definition example_env :: "string \<Rightarrow> string option" where
  "example_env =
     [''EXO_AUTH_KEY'' \<mapsto> ''key'', ''EXO_AUTH_TOKEN'' \<mapsto> ''token'',
      ''EXO_ACCOUNT_SID'' \<mapsto> ''acct'', ''EXO_SUBSCRIBIX_DOMAIN'' \<mapsto> ''api.in.exotel.com'',
      ''VAPI_PRIVATE_KEY'' \<mapsto> ''vkey'', ''VAPI_ASSISTANT_ID'' \<mapsto> ''asst'',
      ''PHONE_NUMBER'' \<mapsto> ''+1234567890'', ''VAPI_FQDN'' \<mapsto> ''mybot@sip.vapi.ai'']"

definition prod_example_config :: prod_config where
  "prod_example_config = load_configuration example_env"

definition caller_example_config :: caller_config where
  "caller_example_config = caller_load_config example_env"

text \<open>A provider that rejects every request with status 401.\<close>

definition unauthorized_provider :: platform where
  "unauthorized_provider =
     offline\<lparr>urlopen := (\<lambda>history req. Http_Error 401 ''Unauthorized''
                                         (Text ''Authentication failed''))\<rparr>"

text \<open>
  A provider that answers \<open>GET\<close> with a trunk list and every other request with the
  status 409 and a body that reports a duplicate resource.
\<close>

definition trunk_entry :: "string \<Rightarrow> string \<Rightarrow> pyval" where
  "trunk_entry status sid =
     PDict [(''status'', PStr ''success''),
            (''data'', PDict [(''trunk_sid'', PStr sid), (''trunk_name'', PStr ''main''),
                              (''status'', PStr status)])]"

definition trunk_provider :: "pyval list \<Rightarrow> platform" where
  "trunk_provider entries =
     offline\<lparr>urlopen := (\<lambda>history req. if req_method req = ''GET'' then Http_2xx (Text ''T'')
                                          else Http_Error 409 ''Conflict''
                                                 (Text ''Duplicate resource'')),
             json_loads := (\<lambda>text. if text = ''T'' then Inr (PDict [(''response'', PList entries)])
                                    else Inl not_json)\<rparr>"

text \<open>
  A provider that answers every request with the status 200 and a given body. Its
  decoders answer as \<open>json.loads\<close> and \<open>ET.fromstring\<close> do on the bodies used below:
  the empty JSON object; three XML documents, one with a \<open>Call\<close> element under the
  root, one without, and one that has no XML declaration; the second document behind a
  no-break space (U+00A0); a broken declaration; any other text is neither JSON nor XML.
\<close>

definition call_document :: string where
  "call_document = ''<?xml version='1.0'?><TwilioResponse><Call><Sid>c1</Sid><Status>queued</Status></Call></TwilioResponse>''"

definition empty_document :: string where
  "empty_document = ''<?xml version='1.0'?><TwilioResponse/>''"

definition bare_document :: string where
  "bare_document = ''<TwilioResponse><Call><Sid>c1</Sid></Call></TwilioResponse>''"

definition padded_document :: string where
  "padded_document = [CHR 0xC2, CHR 0xA0] @ empty_document"

definition body_provider :: "string \<Rightarrow> platform" where
  "body_provider body_text =
     offline\<lparr>urlopen := (\<lambda>history req. Http_2xx (Text body_text)),
             json_loads := (\<lambda>text. if text = ''{}'' then Inr (PDict []) else Inl not_json),
             et_fromstring :=
               (\<lambda>text. if text = call_document
                        then Inr (Elem ''TwilioResponse'' None
                                   [Elem ''Call'' None [Elem ''Sid'' (Some ''c1'') [],
                                                        Elem ''Status'' (Some ''queued'') []]])
                        else if text = empty_document then Inr (Elem ''TwilioResponse'' None [])
                        else if text = bare_document
                        then Inr (Elem ''TwilioResponse'' None
                                   [Elem ''Call'' None [Elem ''Sid'' (Some ''c1'') []]])
                        else if text = padded_document
                        then Inl ''not well-formed (invalid token): line 1, column 0''
                        else if text = ''<?xml broken''
                        then Inl ''unclosed token: line 1, column 0''
                        else Inl ''syntax error: line 1, column 0'')\<rparr>"

section \<open>The address normalizer as the specification words it\<close>

text \<open>
  The specification says that the first (or only) \<open>@\<close> is replaced by a dot. This is
  that reading, written down for comparison with \<open>convert_vapi_fqdn\<close>.
\<close>

fun replace_first_at :: "string \<Rightarrow> string" where
  "replace_first_at [] = []"
| "replace_first_at (c # cs) = (if c = CHR ''@'' then CHR ''.'' # cs else c # replace_first_at cs)"

section \<open>Facts about strings\<close>

lemma str_replace_char:
  "str_replace [a] [b] s = map (\<lambda>c. if c = a then b else c) s"
proof (induction s)
  case Nil
  show ?case by (simp add: str_replace.simps)
next
  case (Cons c cs)
  then show ?case by (subst str_replace.simps) auto
qed

lemma str_contains_char: "str_contains [a] s = (a \<in> set s)"
  by (induction s) auto

lemma convert_vapi_fqdn_map:
  "convert_vapi_fqdn s = map (\<lambda>c. if c = CHR ''@'' then CHR ''.'' else c) s"
proof (cases "CHR ''@'' \<in> set s")
  case True
  then show ?thesis by (simp add: convert_vapi_fqdn_def str_contains_char str_replace_char)
next
  case False
  then have "map (\<lambda>c. if c = CHR ''@'' then CHR ''.'' else c) s = s"
    by (induction s) auto
  with False show ?thesis by (simp add: convert_vapi_fqdn_def str_contains_char)
qed

lemma prod_convert_vapi_fqdn_map:
  "prod_convert_vapi_fqdn s = map (\<lambda>c. if c = CHR ''@'' then CHR ''.'' else c) s"
  by (simp add: prod_convert_vapi_fqdn_def str_replace_char)

lemma map_at_free: "CHR ''@'' \<notin> set (map (\<lambda>c. if c = CHR ''@'' then CHR ''.'' else c) s)"
  by (induction s) auto

lemma map_no_at: "CHR ''@'' \<notin> set s \<Longrightarrow> map (\<lambda>c. if c = CHR ''@'' then CHR ''.'' else c) s = s"
  by (induction s) auto

lemma replace_first_at_single:
  "count_list s CHR ''@'' \<le> 1 \<Longrightarrow>
   map (\<lambda>c. if c = CHR ''@'' then CHR ''.'' else c) s = replace_first_at s"
proof (induction s)
  case Nil
  show ?case by simp
next
  case (Cons c cs)
  show ?case
  proof (cases "c = CHR ''@''")
    case True
    with Cons.prems have "count_list cs CHR ''@'' = 0" by simp
    then have "CHR ''@'' \<notin> set cs" by (simp add: count_list_0_iff)
    with True show ?thesis by (simp add: map_no_at)
  next
    case False
    with Cons show ?thesis by simp
  qed
qed

section \<open>The address normalizer\<close>

text \<open>
  C2, as the specification states it: only the first \<open>@\<close> is replaced. The code
  replaces every \<open>@\<close>: on \<open>a@b@c\<close> it gives \<open>a.b.c\<close>, not \<open>a.b@c\<close>.
\<close>

theorem convert_vapi_fqdn_not_first_only:
  "convert_vapi_fqdn ''a@b@c'' = ''a.b.c'' \<and> replace_first_at ''a@b@c'' = ''a.b@c''
   \<and> convert_vapi_fqdn ''a@b@c'' \<noteq> replace_first_at ''a@b@c''"
  by (simp add: convert_vapi_fqdn_map)

text \<open>
  C2, amended: for every input string the normalizer of either script replaces every
  \<open>@\<close> by a dot. So it returns the input unchanged when the input has no \<open>@\<close>,
  it replaces the first and only \<open>@\<close> when the input has one, and the two examples of
  the specification hold.
\<close>

theorem convert_vapi_fqdn_replaces_every_at:
  "convert_vapi_fqdn s = map (\<lambda>c. if c = CHR ''@'' then CHR ''.'' else c) s
   \<and> prod_convert_vapi_fqdn s = map (\<lambda>c. if c = CHR ''@'' then CHR ''.'' else c) s
   \<and> (CHR ''@'' \<notin> set s \<longrightarrow> convert_vapi_fqdn s = s)
   \<and> (count_list s CHR ''@'' \<le> 1 \<longrightarrow> convert_vapi_fqdn s = replace_first_at s)
   \<and> convert_vapi_fqdn ''bot@sip.example.ai'' = ''bot.sip.example.ai''
   \<and> convert_vapi_fqdn ''no-at-sign'' = ''no-at-sign''"
proof -
  have a: "convert_vapi_fqdn ''bot@sip.example.ai'' = ''bot.sip.example.ai''"
    by (simp add: convert_vapi_fqdn_map)
  have b: "convert_vapi_fqdn ''no-at-sign'' = ''no-at-sign''"
    by (simp add: convert_vapi_fqdn_map)
  show ?thesis
    using a b
    by (simp add: convert_vapi_fqdn_map prod_convert_vapi_fqdn_map map_no_at
        replace_first_at_single)
qed

theorem convert_vapi_fqdn_replaces_every_at_witness:
  "CHR ''@'' \<notin> set ''no-at-sign'' \<and> convert_vapi_fqdn ''no-at-sign'' = ''no-at-sign''
   \<and> count_list ''bot@sip.example.ai'' CHR ''@'' \<le> 1
   \<and> convert_vapi_fqdn ''bot@sip.example.ai'' = replace_first_at ''bot@sip.example.ai''"
  using convert_vapi_fqdn_replaces_every_at [of "''no-at-sign''"]
    convert_vapi_fqdn_replaces_every_at [of "''bot@sip.example.ai''"]
  by simp

text \<open>
  C10: the normalizer of either script is idempotent, and its output never holds an
  \<open>@\<close>.
\<close>

theorem convert_vapi_fqdn_idempotent:
  "convert_vapi_fqdn (convert_vapi_fqdn s) = convert_vapi_fqdn s
   \<and> CHR ''@'' \<notin> set (convert_vapi_fqdn s)
   \<and> prod_convert_vapi_fqdn (prod_convert_vapi_fqdn s) = prod_convert_vapi_fqdn s
   \<and> CHR ''@'' \<notin> set (prod_convert_vapi_fqdn s)"
proof -
  have "map (\<lambda>c. if c = CHR ''@'' then CHR ''.'' else c)
          (map (\<lambda>c. if c = CHR ''@'' then CHR ''.'' else c) s)
        = map (\<lambda>c. if c = CHR ''@'' then CHR ''.'' else c) s"
    by (rule map_no_at) (rule map_at_free)
  then show ?thesis
    by (simp only: convert_vapi_fqdn_map prod_convert_vapi_fqdn_map map_at_free
        not_False_eq_True simp_thms)
qed

section \<open>Facts about the steps of \<open>VapiExotelIntegrator\<close>\<close>

lemma bindE_simps [simp]: "bindE (Inl e) f = Inl e" "bindE (Inr x) f = f x"
  by (simp_all add: bindE_def)

text \<open>Every step result is a dictionary with a boolean \<open>success\<close>, and a failed one
  has an \<open>error\<close>.\<close>

lemma add_vapi_destination_shape:
  "\<exists>kvs. fst (add_vapi_destination P cfg fqdn trunk w) = PDict kvs \<and>
     (map_of kvs ''success'' = Some (PBool True)
      \<or> (map_of kvs ''success'' = Some (PBool False) \<and> (\<exists>err. map_of kvs ''error'' = Some err)))"
  apply (simp add: add_vapi_destination_def Let_def split: prod.splits sum.splits)
  apply (auto simp: failure_def destination_outcome_def bindE_def split: sum.splits if_splits)
  done

lemma map_phone_number_shape:
  "\<exists>kvs. fst (map_phone_number P cfg phone trunk w) = PDict kvs \<and>
     (map_of kvs ''success'' = Some (PBool True)
      \<or> (map_of kvs ''success'' = Some (PBool False) \<and> (\<exists>err. map_of kvs ''error'' = Some err)))"
  apply (simp add: map_phone_number_def Let_def split: prod.splits sum.splits)
  apply (auto simp: failure_def phone_outcome_def bindE_def split: sum.splits if_splits)
  done

section \<open>The orchestrator \<open>configure_vapi_integration\<close>\<close>

text \<open>
  C1, as the specification states it: after a failed attach step the error of the
  aggregate result equals the error of the step. With a provider that answers 500, the
  step reports \<open>Exotel API Error 500: boom\<close> and the aggregate result reports that
  text behind the prefix \<open>Failed to add destination: \<close>.
\<close>

theorem aggregate_error_is_prefixed:
  "step_failed (fst (add_vapi_destination failing_provider example_config
                       ''mybot@sip.vapi.ai'' None world0))
   \<and> py_item (fst (add_vapi_destination failing_provider example_config
                       ''mybot@sip.vapi.ai'' None world0)) ''error''
       = Inr (PStr ''Exotel API Error 500: boom'')
   \<and> bindE (fst (configure_vapi_integration failing_provider example_config
                     ''mybot@sip.vapi.ai'' ''+1234567890'' None world0))
         (\<lambda>results. py_item results ''error'')
       = Inr (PStr ''Failed to add destination: Exotel API Error 500: boom'')"
  by code_simp

text \<open>
  C1, amended: whenever the attach step returns a failure, the orchestrator ends in the
  world the attach step left (no request of the mapping step is sent and the steps hold
  the attach result only), the aggregate result has \<open>success\<close> false, and its error is
  the text \<open>Failed to add destination: \<close> followed by the error of the attach step.
\<close>

theorem configure_stops_after_failed_attach:
  assumes "step_failed (fst (add_vapi_destination P cfg vapi_fqdn trunk_sid w))"
  shows "\<exists>results err.
           configure_vapi_integration P cfg vapi_fqdn phone_number trunk_sid w
             = (Inr (PDict results), snd (add_vapi_destination P cfg vapi_fqdn trunk_sid w))
         \<and> py_item (fst (add_vapi_destination P cfg vapi_fqdn trunk_sid w)) ''error'' = Inr err
         \<and> map_of results ''success'' = Some (PBool False)
         \<and> map_of results ''error'' = Some (PStr (''Failed to add destination: '' @ py_str err))
         \<and> map_of results ''steps''
             = Some (PDict [(''destination'', fst (add_vapi_destination P cfg vapi_fqdn trunk_sid w))])"
proof -
  obtain dest w1 where d: "add_vapi_destination P cfg vapi_fqdn trunk_sid w = (dest, w1)"
    by (cases "add_vapi_destination P cfg vapi_fqdn trunk_sid w")
  from add_vapi_destination_shape [of P cfg vapi_fqdn trunk_sid w] d
  obtain kvs where k: "dest = PDict kvs"
    and s: "map_of kvs ''success'' = Some (PBool True)
            \<or> (map_of kvs ''success'' = Some (PBool False) \<and> (\<exists>err. map_of kvs ''error'' = Some err))"
    by auto
  from assms d k have "map_of kvs ''success'' \<noteq> Some (PBool True)"
    by (auto simp: step_failed_def py_item_def)
  with s obtain err where f: "map_of kvs ''success'' = Some (PBool False)"
    and e: "map_of kvs ''error'' = Some err" by auto
  show ?thesis
    using d k f e
    by (simp add: configure_vapi_integration_def Let_def py_item_def set_step_def)
qed

theorem configure_stops_after_failed_attach_witness:
  "step_failed (fst (add_vapi_destination failing_provider example_config
                       ''mybot@sip.vapi.ai'' None world0))
   \<and> (\<exists>results err.
         configure_vapi_integration failing_provider example_config
             ''mybot@sip.vapi.ai'' ''+1234567890'' None world0
           = (Inr (PDict results),
              snd (add_vapi_destination failing_provider example_config
                     ''mybot@sip.vapi.ai'' None world0))
         \<and> py_item (fst (add_vapi_destination failing_provider example_config
                             ''mybot@sip.vapi.ai'' None world0)) ''error'' = Inr err
         \<and> map_of results ''success'' = Some (PBool False)
         \<and> map_of results ''error'' = Some (PStr (''Failed to add destination: '' @ py_str err))
         \<and> map_of results ''steps''
             = Some (PDict [(''destination'',
                             fst (add_vapi_destination failing_provider example_config
                                    ''mybot@sip.vapi.ai'' None world0))]))"
proof -
  have h: "step_failed (fst (add_vapi_destination failing_provider example_config
                               ''mybot@sip.vapi.ai'' None world0))"
    by code_simp
  from configure_stops_after_failed_attach [OF h, of "''+1234567890''"] h
  show ?thesis by blast
qed

text \<open>
  C6: for the address \<open>mybot@sip.vapi.ai\<close> and the phone \<open>+1234567890\<close>, when the
  attach step and the mapping step both succeed, the aggregate result has \<open>success\<close>
  true, the converted address \<open>mybot.sip.vapi.ai\<close> and the phone number as given.
\<close>

theorem configure_success_example:
  assumes "step_succeeded (fst (add_vapi_destination P cfg ''mybot@sip.vapi.ai'' trunk_sid w))"
      and "step_succeeded (fst (map_phone_number P cfg ''+1234567890'' trunk_sid
                                 (snd (add_vapi_destination P cfg ''mybot@sip.vapi.ai'' trunk_sid w))))"
  shows "\<exists>results.
           fst (configure_vapi_integration P cfg ''mybot@sip.vapi.ai'' ''+1234567890'' trunk_sid w)
             = Inr (PDict results)
         \<and> map_of results ''success'' = Some (PBool True)
         \<and> map_of results ''converted_fqdn'' = Some (PStr ''mybot.sip.vapi.ai'')
         \<and> map_of results ''phone_number'' = Some (PStr ''+1234567890'')"
proof -
  obtain dest w1 where d: "add_vapi_destination P cfg ''mybot@sip.vapi.ai'' trunk_sid w = (dest, w1)"
    by (cases "add_vapi_destination P cfg ''mybot@sip.vapi.ai'' trunk_sid w")
  obtain ph w2 where p: "map_phone_number P cfg ''+1234567890'' trunk_sid w1 = (ph, w2)"
    by (cases "map_phone_number P cfg ''+1234567890'' trunk_sid w1")
  from assms(1) d obtain ok1 where o1: "py_item dest ''success'' = Inr ok1" "truthy ok1"
    by (auto simp: step_succeeded_def split: sum.splits)
  from assms(2) d p obtain ok2 where o2: "py_item ph ''success'' = Inr ok2" "truthy ok2"
    by (auto simp: step_succeeded_def split: sum.splits)
  have c: "convert_vapi_fqdn ''mybot@sip.vapi.ai'' = ''mybot.sip.vapi.ai''"
    by (simp add: convert_vapi_fqdn_map)
  show ?thesis
    using d p o1 o2 c
    by (simp add: configure_vapi_integration_def Let_def set_step_def)
qed

theorem configure_success_example_witness:
  "step_succeeded (fst (add_vapi_destination accepting_provider example_config
                          ''mybot@sip.vapi.ai'' None world0))
   \<and> step_succeeded (fst (map_phone_number accepting_provider example_config ''+1234567890'' None
                             (snd (add_vapi_destination accepting_provider example_config
                                     ''mybot@sip.vapi.ai'' None world0))))
   \<and> (\<exists>results.
         fst (configure_vapi_integration accepting_provider example_config
                ''mybot@sip.vapi.ai'' ''+1234567890'' None world0) = Inr (PDict results)
         \<and> map_of results ''success'' = Some (PBool True)
         \<and> map_of results ''converted_fqdn'' = Some (PStr ''mybot.sip.vapi.ai'')
         \<and> map_of results ''phone_number'' = Some (PStr ''+1234567890''))"
proof -
  have h1: "step_succeeded (fst (add_vapi_destination accepting_provider example_config
                                   ''mybot@sip.vapi.ai'' None world0))"
    by code_simp
  have h2: "step_succeeded (fst (map_phone_number accepting_provider example_config
                                   ''+1234567890'' None
                                   (snd (add_vapi_destination accepting_provider example_config
                                           ''mybot@sip.vapi.ai'' None world0))))"
    by code_simp
  from configure_success_example [OF h1 h2] h1 h2 show ?thesis by blast
qed

section \<open>Duplicate resources\<close>

text \<open>
  C3 at a provider that reports the duplicate with the status 409 and the body
  \<open>Duplicate resource\<close>: the exception of \<open>_make_request\<close> reaches the handler of
  the step, which returns a failure whatever the text of the exception; both steps of
  \<open>VapiExotelIntegrator\<close> end with \<open>success\<close> false.
\<close>

theorem http_duplicate_fails_the_step:
  "fst (add_vapi_destination duplicate_provider example_config ''mybot@sip.vapi.ai'' None world0)
     = failure (PStr ''Exotel API Error 409: Duplicate resource'')
   \<and> fst (map_phone_number duplicate_provider example_config ''+1234567890'' None world0)
     = failure (PStr ''Exotel API Error 409: Duplicate resource'')
   \<and> step_failed (fst (add_vapi_destination duplicate_provider example_config
                          ''mybot@sip.vapi.ai'' None world0))
   \<and> step_failed (fst (map_phone_number duplicate_provider example_config
                          ''+1234567890'' None world0))"
  by code_simp

text \<open>
  A duplicate that the provider reports inside a 2xx body, in the shape each step of
  \<open>VapiExotelIntegrator\<close> reads, is a success of the step.
\<close>

lemma attach_duplicate_in_body:
  assumes "py_get item ''status'' PNone = Inr status" and "status \<noteq> PStr ''success''"
      and "py_get item ''error_data'' (PDict []) = Inr error_data"
      and "str_contains ''Duplicate resource'' (py_str error_data)"
  shows "\<exists>step. destination_outcome (PDict [(''response'', PList (item # rest))])
                  sip_destination trunk = Inr step
              \<and> step_succeeded step"
  using assms
  by (simp add: destination_outcome_def py_get_def py_len_def py_item0_def
      step_succeeded_def py_item_def)

lemma mapping_duplicate_in_body:
  assumes "entries \<noteq> []"
      and "str_contains ''Duplicate resource'' (py_str (PDict entries))"
  shows "\<exists>step. phone_outcome (PDict [(''response'', PDict entries)]) phone_number trunk = Inr step
              \<and> step_succeeded step"
  using assms
  by (simp add: phone_outcome_def py_get_def step_succeeded_def py_item_def)

text \<open>
  The production script at the same answers: \<open>setup_fqdn_integration\<close> looks for
  \<open>Duplicate resource\<close> in the text of the exception and goes on; its result is a
  success.
\<close>

lemma http_duplicate_passes_in_production:
  "bindE (fst (setup_fqdn_integration (trunk_provider [trunk_entry ''active'' ''t1''])
                 prod_example_config world0))
     (\<lambda>result. py_item result ''success'') = Inr (PBool True)"
  by code_simp

section \<open>Trunk resolution\<close>

lemma well_formed_entry_step:
  assumes "well_formed_entry entry"
  shows "find_active_trunk (entry # rest) =
           (if status_lowers_to_active entry then Inr (Some (found_trunk entry))
            else find_active_trunk rest)"
proof -
  from assms obtain kvs where e: "entry = PDict kvs"
    by (cases entry) (auto simp: well_formed_entry_def py_get_def)
  from assms e have st: "map_of kvs ''status'' = Some (PStr ''success'')"
    by (auto simp: well_formed_entry_def py_get_def split: option.splits)
  from assms e obtain d where d: "map_of kvs ''data'' = Some d" "truthy d"
    by (auto simp: well_formed_entry_def entry_data_def py_item_def split: option.splits)
  from assms e d obtain t where t: "d = PDict t"
    by (cases d) (auto simp: well_formed_entry_def entry_status_def entry_data_def py_item_def py_get_def)
  from assms e d t obtain s where s: "(case map_of t ''status'' of None \<Rightarrow> PStr [] | Some x \<Rightarrow> x) = PStr s"
    by (auto simp: well_formed_entry_def entry_status_def entry_data_def py_item_def py_get_def
        split: option.splits pyval.splits)
  show ?thesis
    using e st d t s
    by (simp add: py_get_def py_item_def py_lower_def status_lowers_to_active_def
        entry_status_def entry_data_def found_trunk_def entry_trunk_sid_def)
qed

lemma find_active_trunk_well_formed:
  "list_all well_formed_entry entries \<Longrightarrow>
   find_active_trunk entries = Inr (map_option found_trunk (find status_lowers_to_active entries))"
proof (induction entries)
  case Nil
  show ?case by simp
next
  case (Cons entry rest)
  then have wf: "well_formed_entry entry" and r: "list_all well_formed_entry rest" by simp_all
  show ?case
    using Cons.IH [OF r] by (simp only: well_formed_entry_step [OF wf] find.simps) simp
qed

lemma find_of_filter:
  "filter p xs = [x] \<Longrightarrow> find p xs = Some x"
  "filter p xs = [] \<Longrightarrow> find p xs = None"
  by (induction xs) (auto split: if_splits)

lemma make_exotel_request_stdout:
  "fst (make_exotel_request P cfg m e p (w\<lparr>stdout := out\<rparr>)) = fst (make_exotel_request P cfg m e p w)"
  "sent (snd (make_exotel_request P cfg m e p (w\<lparr>stdout := out\<rparr>))) = sent (snd (make_exotel_request P cfg m e p w))"
  by (auto simp: make_exotel_request_def Let_def split: option.splits http_reply.splits sum.splits)

lemma get_active_trunk_result:
  "fst (get_active_trunk P cfg w) =
     (case bindE (trunk_list_reply P cfg w) active_trunk_of of
        Inr (Some found) \<Rightarrow> fst found | _ \<Rightarrow> PNone)"
proof -
  obtain r w2 where m: "make_exotel_request P cfg ''GET'' ''/trunks'' None
       (py_print (sym_search @ '' Finding active Exotel trunk...'') w) = (r, w2)"
    by (cases "make_exotel_request P cfg ''GET'' ''/trunks'' None
       (py_print (sym_search @ '' Finding active Exotel trunk...'') w)")
  have "fst (make_exotel_request P cfg ''GET'' ''/trunks'' None
       (py_print (sym_search @ '' Finding active Exotel trunk...'') w)) = trunk_list_reply P cfg w"
    unfolding py_print_def trunk_list_reply_def by (rule make_exotel_request_stdout(1))
  with m have "r = trunk_list_reply P cfg w" by simp
  then show ?thesis
    using m by (simp add: get_active_trunk_def Let_def split: sum.splits option.splits prod.splits)
qed

lemma get_active_trunk_sent:
  "sent (snd (get_active_trunk P cfg w)) = sent (snd (make_exotel_request P cfg ''GET'' ''/trunks'' None w))"
proof -
  obtain r w2 where m: "make_exotel_request P cfg ''GET'' ''/trunks'' None
       (py_print (sym_search @ '' Finding active Exotel trunk...'') w) = (r, w2)"
    by (cases "make_exotel_request P cfg ''GET'' ''/trunks'' None
       (py_print (sym_search @ '' Finding active Exotel trunk...'') w)")
  have "sent (snd (make_exotel_request P cfg ''GET'' ''/trunks'' None
       (py_print (sym_search @ '' Finding active Exotel trunk...'') w)))
        = sent (snd (make_exotel_request P cfg ''GET'' ''/trunks'' None w))"
    unfolding py_print_def by (rule make_exotel_request_stdout(2))
  with m have "sent w2 = sent (snd (make_exotel_request P cfg ''GET'' ''/trunks'' None w))" by simp
  then show ?thesis
    using m by (simp add: get_active_trunk_def Let_def py_print_def split: sum.splits option.splits prod.splits)
qed

lemma active_trunk_of_list:
  "map_of kvs ''response'' = Some (PList entries) \<Longrightarrow>
   active_trunk_of (PDict kvs) = find_active_trunk entries"
  by (cases kvs; cases entries) (auto simp: active_trunk_of_def py_get_def py_iter_def)

lemma trunk_list_reply_stdout:
  "trunk_list_reply P cfg (w\<lparr>stdout := out\<rparr>) = trunk_list_reply P cfg w"
  by (simp add: trunk_list_reply_def make_exotel_request_stdout)

lemma setup_without_trunk:
  assumes "integration_vapi_fqdn cfg = Some fqdn"
      and "\<And>out. fst (get_active_trunk P cfg (w\<lparr>stdout := out\<rparr>)) = PNone"
  shows "fst (setup_fqdn_integration P cfg w) = Inr (failure (PStr ''No active trunk found''))"
proof -
  define w2 where "w2 = py_prints [''   Converted: '' @ prod_convert_vapi_fqdn fqdn,
        ''   SIP Destination: '' @ sip_destination_of (prod_convert_vapi_fqdn fqdn), []]
      (py_prints [CHR 0x0A # sym_target @ '' SETTING UP FQDN-BASED INTEGRATION'',
                          replicate 50 CHR ''='',
                          sym_clip @ '' Configuration:'',
                          ''   FQDN: '' @ opt_str (integration_vapi_fqdn cfg),
                          ''   Phone: '' @ opt_str (integration_phone_number cfg)] w)"
  have "w2 = w\<lparr>stdout := stdout w2\<rparr>"
    by (simp add: w2_def py_prints_def)
  with assms(2) [of "stdout w2"] have "fst (get_active_trunk P cfg w2) = PNone" by simp
  then obtain w3 where g: "get_active_trunk P cfg w2 = (PNone, w3)"
    by (cases "get_active_trunk P cfg w2") auto
  show ?thesis
    unfolding setup_fqdn_integration_def Let_def
    using assms(1) g [unfolded w2_def] by simp
qed

text \<open>
  C4, amended: take a trunk list whose entries are well formed. When exactly one trunk
  has a status that equals \<open>active\<close> after lower-casing, \<open>get_active_trunk\<close> returns
  the \<open>trunk_sid\<close> of that trunk. When no trunk has such a status, it returns \<open>None\<close>
  and \<open>setup_fqdn_integration\<close> returns the failure \<open>No active trunk found\<close>.
\<close>

theorem get_active_trunk_by_lowered_status:
  assumes "trunk_list_reply P cfg w = Inr (PDict kvs)"
      and "map_of kvs ''response'' = Some (PList entries)"
      and "list_all well_formed_entry entries"
  shows "(\<forall>entry. filter status_lowers_to_active entries = [entry]
            \<longrightarrow> fst (get_active_trunk P cfg w) = entry_trunk_sid entry)
       \<and> (filter status_lowers_to_active entries = []
            \<longrightarrow> fst (get_active_trunk P cfg w) = PNone
                \<and> (\<forall>fqdn. integration_vapi_fqdn cfg = Some fqdn
                      \<longrightarrow> fst (setup_fqdn_integration P cfg w)
                            = Inr (failure (PStr ''No active trunk found''))))"
proof -
  have found: "fst (get_active_trunk P cfg (w\<lparr>stdout := out\<rparr>))
                 = (case find status_lowers_to_active entries of
                      None \<Rightarrow> PNone | Some entry \<Rightarrow> entry_trunk_sid entry)" for out
    using assms
    by (simp add: get_active_trunk_result trunk_list_reply_stdout active_trunk_of_list
        find_active_trunk_well_formed found_trunk_def split: option.splits)
  have here: "fst (get_active_trunk P cfg w)
                 = (case find status_lowers_to_active entries of
                      None \<Rightarrow> PNone | Some entry \<Rightarrow> entry_trunk_sid entry)"
    using found [of "stdout w"] by simp
  show ?thesis
  proof (intro conjI allI impI)
    fix entry
    assume "filter status_lowers_to_active entries = [entry]"
    then show "fst (get_active_trunk P cfg w) = entry_trunk_sid entry"
      by (simp add: here find_of_filter)
  next
    assume "filter status_lowers_to_active entries = []"
    then show "fst (get_active_trunk P cfg w) = PNone"
      by (simp add: here find_of_filter)
  next
    fix fqdn
    assume none: "filter status_lowers_to_active entries = []"
      and f: "integration_vapi_fqdn cfg = Some fqdn"
    have "fst (get_active_trunk P cfg (w\<lparr>stdout := out\<rparr>)) = PNone" for out
      using none by (simp add: found find_of_filter)
    with f show "fst (setup_fqdn_integration P cfg w) = Inr (failure (PStr ''No active trunk found''))"
      by (rule setup_without_trunk)
  qed
qed

text \<open>
  C4, as the specification states it: the trunk whose status is \<open>active\<close> is the one
  returned. The code compares the status in lower case and stops at the first match: in
  a list where exactly one trunk has the status \<open>active\<close> and an earlier one the
  status \<open>ACTIVE\<close>, the earlier trunk is returned.
\<close>

theorem upper_case_trunk_is_taken:
  "list_all well_formed_entry [trunk_entry ''ACTIVE'' ''t1'', trunk_entry ''active'' ''t2'']
   \<and> filter status_is_active [trunk_entry ''ACTIVE'' ''t1'', trunk_entry ''active'' ''t2'']
     = [trunk_entry ''active'' ''t2'']
   \<and> entry_trunk_sid (trunk_entry ''active'' ''t2'') = PStr ''t2''
   \<and> fst (get_active_trunk
             (trunk_provider [trunk_entry ''ACTIVE'' ''t1'', trunk_entry ''active'' ''t2''])
             prod_example_config world0) = PStr ''t1''"
  by code_simp

theorem get_active_trunk_by_lowered_status_witness:
  "filter status_lowers_to_active [trunk_entry ''inactive'' ''t0'', trunk_entry ''Active'' ''t1'']
     = [trunk_entry ''Active'' ''t1'']
   \<and> fst (get_active_trunk
             (trunk_provider [trunk_entry ''inactive'' ''t0'', trunk_entry ''Active'' ''t1''])
             prod_example_config world0) = PStr ''t1''
   \<and> filter status_lowers_to_active [trunk_entry ''inactive'' ''t0''] = []
   \<and> fst (get_active_trunk (trunk_provider [trunk_entry ''inactive'' ''t0''])
             prod_example_config world0) = PNone
   \<and> fst (setup_fqdn_integration (trunk_provider [trunk_entry ''inactive'' ''t0''])
             prod_example_config world0) = Inr (failure (PStr ''No active trunk found''))"
proof -
  let ?one = "[trunk_entry ''inactive'' ''t0'', trunk_entry ''Active'' ''t1'']"
  let ?none = "[trunk_entry ''inactive'' ''t0'']"
  have r1: "trunk_list_reply (trunk_provider ?one) prod_example_config world0
              = Inr (PDict [(''response'', PList ?one)])"
    by code_simp
  have r0: "trunk_list_reply (trunk_provider ?none) prod_example_config world0
              = Inr (PDict [(''response'', PList ?none)])"
    by code_simp
  have m1: "map_of [(''response'', PList ?one)] ''response'' = Some (PList ?one)" by simp
  have m0: "map_of [(''response'', PList ?none)] ''response'' = Some (PList ?none)" by simp
  have w1: "list_all well_formed_entry ?one" by code_simp
  have w0: "list_all well_formed_entry ?none" by code_simp
  have f1: "filter status_lowers_to_active ?one = [trunk_entry ''Active'' ''t1'']" by code_simp
  have f0: "filter status_lowers_to_active ?none = []" by code_simp
  have s1: "entry_trunk_sid (trunk_entry ''Active'' ''t1'') = PStr ''t1''" by code_simp
  have q: "integration_vapi_fqdn prod_example_config = Some ''mybot@sip.vapi.ai''" by code_simp
  show ?thesis
    using get_active_trunk_by_lowered_status [OF r1 m1 w1]
      get_active_trunk_by_lowered_status [OF r0 m0 w0] f1 f0 s1 q
    by simp
qed

section \<open>The SIP destination\<close>

lemma prod_attach_early:
  "prod_attach_outcome d = Inr v \<Longrightarrow> snd v = Some early \<Longrightarrow>
   early = failure (PStr ''Failed to add destination'')"
  by (auto simp: prod_attach_outcome_def bindE_def split: sum.splits if_splits)

lemma prod_attach_early_bind:
  "bindE r prod_attach_outcome = Inr (line, Some early) \<Longrightarrow>
   early = failure (PStr ''Failed to add destination'')"
  by (cases r) (auto dest: prod_attach_early)

lemma failure_not_succeeded: "\<not> step_succeeded (failure e)"
  by (simp add: step_succeeded_def failure_def py_item_def)

lemma setup_success_fields:
  assumes f: "integration_vapi_fqdn pcfg = Some fqdn"
      and r: "fst (setup_fqdn_integration P pcfg w) = Inr result"
      and s: "step_succeeded result"
  shows "py_item result ''fqdn'' = Inr (PStr (prod_convert_vapi_fqdn fqdn))
         \<and> py_item result ''sip_destination''
             = Inr (PStr (prod_convert_vapi_fqdn fqdn @ '':5060;transport=tcp''))"
proof -
  have "step_succeeded result \<longrightarrow>
        (\<exists>t ph. result = PDict [(''success'', PBool True), (''trunk_sid'', t),
                        (''fqdn'', PStr (prod_convert_vapi_fqdn fqdn)),
                        (''sip_destination'', PStr (sip_destination_of (prod_convert_vapi_fqdn fqdn))),
                        (''phone_number'', ph)])"
    using f r
    by (auto simp: setup_fqdn_integration_def Let_def failure_not_succeeded
        split: prod.splits if_splits option.splits sum.splits dest!: prod_attach_early_bind)
  with s show ?thesis
    by (auto simp: py_item_def sip_destination_of_def)
qed

text \<open>
  C7: the SIP destination is the normalized address followed by the literal suffix
  \<open>:5060;transport=tcp\<close>. In \<open>VapiExotelIntegrator\<close> it is the destination of the one
  request that \<open>add_vapi_destination\<close> sends once the credentials are present; in the
  production script it is the \<open>sip_destination\<close> of every successful result of
  \<open>setup_fqdn_integration\<close>, next to the normalized address itself.
\<close>

theorem sip_destination_suffix:
  "(opt_truthy (auth_key cfg) \<and> opt_truthy (auth_token cfg) \<and> opt_truthy (account_sid cfg)
      \<longrightarrow> sent (snd (add_vapi_destination P cfg vapi_fqdn trunk_sid w))
            = sent w @
              [json_request ''POST''
                 (base_url cfg @ ''/trunks/'' @ opt_or trunk_sid (default_trunk cfg) @ ''/destination-uris'')
                 (opt_str (auth_key cfg) @ '':'' @ opt_str (auth_token cfg))
                 (Some (PDict [(''destinations'',
                                PList [PDict [(''destination'',
                                               PStr (convert_vapi_fqdn vapi_fqdn
                                                     @ '':5060;transport=tcp''))]])]))])
   \<and> (\<forall>fqdn result.
         integration_vapi_fqdn pcfg = Some fqdn
         \<and> fst (setup_fqdn_integration P pcfg w) = Inr result \<and> step_succeeded result
         \<longrightarrow> py_item result ''fqdn'' = Inr (PStr (prod_convert_vapi_fqdn fqdn))
             \<and> py_item result ''sip_destination''
                 = Inr (PStr (prod_convert_vapi_fqdn fqdn @ '':5060;transport=tcp'')))"
proof (intro conjI allI impI)
  assume "opt_truthy (auth_key cfg) \<and> opt_truthy (auth_token cfg) \<and> opt_truthy (account_sid cfg)"
  then show "sent (snd (add_vapi_destination P cfg vapi_fqdn trunk_sid w))
            = sent w @
              [json_request ''POST''
                 (base_url cfg @ ''/trunks/'' @ opt_or trunk_sid (default_trunk cfg) @ ''/destination-uris'')
                 (opt_str (auth_key cfg) @ '':'' @ opt_str (auth_token cfg))
                 (Some (PDict [(''destinations'',
                                PList [PDict [(''destination'',
                                               PStr (convert_vapi_fqdn vapi_fqdn
                                                     @ '':5060;transport=tcp''))]])]))]"
    by (simp add: add_vapi_destination_def make_request_def Let_def sip_destination_of_def
        destinations_payload_def split: http_reply.splits sum.splits)
next
  fix fqdn result
  assume a: "integration_vapi_fqdn pcfg = Some fqdn
         \<and> fst (setup_fqdn_integration P pcfg w) = Inr result \<and> step_succeeded result"
  then show "py_item result ''fqdn'' = Inr (PStr (prod_convert_vapi_fqdn fqdn))"
    using setup_success_fields by blast
  from a show "py_item result ''sip_destination''
                 = Inr (PStr (prod_convert_vapi_fqdn fqdn @ '':5060;transport=tcp''))"
    using setup_success_fields by blast
qed

theorem sip_destination_suffix_witness:
  "opt_truthy (auth_key example_config) \<and> opt_truthy (auth_token example_config)
   \<and> opt_truthy (account_sid example_config)
   \<and> map req_body (sent (snd (add_vapi_destination offline example_config
                                  ''mybot@sip.vapi.ai'' None world0)))
       = [Some (JsonBody (PDict [(''destinations'',
                                  PList [PDict [(''destination'',
                                                 PStr ''mybot.sip.vapi.ai:5060;transport=tcp'')]])]))]
   \<and> integration_vapi_fqdn prod_example_config = Some ''mybot@sip.vapi.ai''
   \<and> bindE (fst (setup_fqdn_integration (trunk_provider [trunk_entry ''active'' ''t1''])
                   prod_example_config world0))
         (\<lambda>result. py_item result ''sip_destination'')
       = Inr (PStr ''mybot.sip.vapi.ai:5060;transport=tcp'')"
proof -
  have h: "opt_truthy (auth_key example_config) \<and> opt_truthy (auth_token example_config)
           \<and> opt_truthy (account_sid example_config)"
    by code_simp
  have c: "convert_vapi_fqdn ''mybot@sip.vapi.ai'' = ''mybot.sip.vapi.ai''"
    "prod_convert_vapi_fqdn ''mybot@sip.vapi.ai'' = ''mybot.sip.vapi.ai''"
    by (simp_all add: convert_vapi_fqdn_map prod_convert_vapi_fqdn_map)
  have a: "map req_body (sent (snd (add_vapi_destination offline example_config
                                  ''mybot@sip.vapi.ai'' None world0)))
       = [Some (JsonBody (PDict [(''destinations'',
                                  PList [PDict [(''destination'',
                                                 PStr ''mybot.sip.vapi.ai:5060;transport=tcp'')]])]))]"
    using sip_destination_suffix [where cfg = example_config and P = offline
        and vapi_fqdn = "''mybot@sip.vapi.ai''" and trunk_sid = None and w = world0] h c
    by (simp add: world0_def json_request_def)
  have f: "integration_vapi_fqdn prod_example_config = Some ''mybot@sip.vapi.ai''"
    by code_simp
  obtain result where
    r: "fst (setup_fqdn_integration (trunk_provider [trunk_entry ''active'' ''t1''])
               prod_example_config world0) = Inr result"
    and s: "step_succeeded result"
  proof
    show "fst (setup_fqdn_integration (trunk_provider [trunk_entry ''active'' ''t1''])
               prod_example_config world0)
          = Inr (PDict [(''success'', PBool True), (''trunk_sid'', PStr ''t1''),
                        (''fqdn'', PStr ''mybot.sip.vapi.ai''),
                        (''sip_destination'', PStr ''mybot.sip.vapi.ai:5060;transport=tcp''),
                        (''phone_number'', PStr ''+1234567890'')])"
      by code_simp
    show "step_succeeded (PDict [(''success'', PBool True), (''trunk_sid'', PStr ''t1''),
                        (''fqdn'', PStr ''mybot.sip.vapi.ai''),
                        (''sip_destination'', PStr ''mybot.sip.vapi.ai:5060;transport=tcp''),
                        (''phone_number'', PStr ''+1234567890'')])"
      by code_simp
  qed
  have "py_item result ''sip_destination''
          = Inr (PStr (prod_convert_vapi_fqdn ''mybot@sip.vapi.ai'' @ '':5060;transport=tcp''))"
    using sip_destination_suffix [where pcfg = prod_example_config and w = world0
        and P = "trunk_provider [trunk_entry ''active'' ''t1'']"] f r s
    by blast
  then have b: "bindE (fst (setup_fqdn_integration (trunk_provider [trunk_entry ''active'' ''t1''])
                   prod_example_config world0))
         (\<lambda>result. py_item result ''sip_destination'')
       = Inr (PStr ''mybot.sip.vapi.ai:5060;transport=tcp'')"
    by (simp add: r c)
  from h a f b show ?thesis by blast
qed

section \<open>Responses with a non-2xx status\<close>




text \<open>
  A body of a non-2xx response that is not UTF-8: the read in the handler raises, so
  the three clients that raise hand their caller the exception of the read instead of
  the one that carries the status code, and \<open>post\<close> prints the line with the status
  code and then raises that exception instead of ending the process.
\<close>

lemma make_request_unreadable_error_body:
  "opt_truthy (auth_key cfg) \<and> opt_truthy (auth_token cfg) \<and> opt_truthy (account_sid cfg)
   \<and> urlopen P (sent w)
         (json_request verb (base_url cfg @ route)
            (opt_str (auth_key cfg) @ '':'' @ opt_str (auth_token cfg)) payload)
       = Http_Error code reason (Unreadable e)
   \<Longrightarrow> fst (make_request P cfg verb route payload w) = Inl e"
  by (simp add: make_request_def Let_def read_text_def)

lemma make_exotel_request_unreadable_error_body:
  "exotel_base_url pcfg = Some pbase
   \<and> urlopen P (sent w)
         (json_request pverb (pbase @ proute)
            (opt_str (exotel_auth_key pcfg) @ '':'' @ opt_str (exotel_auth_token pcfg)) ppayload)
       = Http_Error code reason (Unreadable e)
   \<Longrightarrow> fst (make_exotel_request P pcfg pverb proute ppayload w) = Inl e"
  by (simp add: make_exotel_request_def Let_def read_text_def)

lemma caller_unreadable_error_body:
  "urlopen P (sent w) (form_request ccfg croute form) = Http_Error code reason (Unreadable e)
   \<Longrightarrow> fst (caller_make_exotel_request P ccfg croute form w) = Inl e"
  by (simp add: caller_make_exotel_request_def Let_def read_text_def)

lemma post_unreadable_error_body:
  "opt_truthy (env ''EXO_AUTH_KEY'') \<and> opt_truthy (env ''EXO_AUTH_TOKEN'')
   \<and> urlopen P (sent w)
         (post_request base path
            (Basic (opt_str (env ''EXO_AUTH_KEY'') @ '':'' @ opt_str (env ''EXO_AUTH_TOKEN'')))
            body_payload)
       = Http_Error code reason (Unreadable e)
   \<Longrightarrow> fst (post P env base path body_payload w) = Raised e
       \<and> stdout (snd (post P env base path body_payload w))
           = stdout w @ [''DEBUG: Making request to: '' @ base @ path,
                         ''DEBUG: Payload: '' @ json_dumps_indent P body_payload,
                         ''HTTP Error '' @ dec_nat code @ '': '' @ reason]"
  by (simp add: post_def get_auth_header_def Let_def py_prints_def py_print_def read_text_def)




section \<open>Decoding a 2xx body\<close>

lemma map_of_dict_set: "map_of (dict_set d k v) = (map_of d)(k \<mapsto> v)"
  by (induction d k v rule: dict_set.induct) auto

lemma map_of_collected:
  "map_of (foldl (\<lambda>call_data child. dict_set call_data (xml_tag child) (opt_val (xml_text child)))
             acc children)
   = map_of (rev (map (\<lambda>child. (xml_tag child, opt_val (xml_text child))) children) @ acc)"
proof (induction children arbitrary: acc)
  case Nil
  show ?case by simp
next
  case (Cons c cs)
  show ?case
    by (simp add: Cons.IH map_of_dict_set map_add_def fun_eq_iff split: option.splits)
qed

text \<open>
  A 2xx body that is not UTF-8, and a body on which \<open>json.loads\<close> raises another
  exception than \<open>JSONDecodeError\<close>: \<open>_make_exotel_request\<close> catches neither, its
  caller receives the exception.
\<close>

lemma caller_unreadable_body:
  "urlopen P (sent w) (form_request cfg route data) = Http_2xx (Unreadable e)
   \<Longrightarrow> fst (caller_make_exotel_request P cfg route data w) = Inl e"
  by (simp add: caller_make_exotel_request_def Let_def read_text_def)

lemma caller_other_json_exception:
  "urlopen P (sent w) (form_request cfg route data) = Http_2xx (Text response_data)
   \<and> json_loads P response_data = Inl e \<and> \<not> is_json_decode_error e
   \<Longrightarrow> fst (caller_make_exotel_request P cfg route data w) = Inl e"
  by (simp add: caller_make_exotel_request_def Let_def read_text_def)

text \<open>
  The strip before the test for \<open><?xml\<close> takes the white space of Unicode: a
  declaration behind a no-break space passes the test.
\<close>

lemma strip_takes_no_break_space:
  "str_strip padded_document = empty_document \<and> prefix ''<?xml'' (str_strip padded_document)"
  by code_simp

text \<open>
  C8, as the specification states it: a body that fails both decoders comes back as the
  raw text tagged as a success, and a body that is not JSON goes to the XML decoder. A
  body that starts with \<open><?xml\<close> and is not XML comes back as \<open>raw_xml\<close> with a
  \<open>parse_error\<close> and no status; an XML document without the declaration never reaches
  the XML decoder.
\<close>

theorem failed_xml_is_not_a_success_payload:
  "fst (caller_make_exotel_request (body_provider ''<?xml broken'') caller_example_config
          ''Calls/connect'' [(''From'', PStr ''+1234567890'')] world0)
     = Inr (PDict [(''raw_xml'', PStr ''<?xml broken''),
                   (''parse_error'', PStr ''unclosed token: line 1, column 0'')])
   \<and> fst (caller_make_exotel_request (body_provider ''<?xml broken'') caller_example_config
          ''Calls/connect'' [(''From'', PStr ''+1234567890'')] world0)
     \<noteq> Inr (PDict [(''raw_response'', PStr ''<?xml broken''), (''status'', PStr ''success'')])
   \<and> et_fromstring (body_provider bare_document) bare_document
     = Inr (Elem ''TwilioResponse'' None [Elem ''Call'' None [Elem ''Sid'' (Some ''c1'') []]])
   \<and> fst (caller_make_exotel_request (body_provider bare_document) caller_example_config
          ''Calls/connect'' [(''From'', PStr ''+1234567890'')] world0)
     = Inr (PDict [(''raw_response'', PStr bare_document), (''status'', PStr ''success'')])"
  by code_simp

text \<open>
  C8, amended: for every 2xx body that is read as UTF-8 text, \<open>_make_exotel_request\<close>
  returns the JSON value when the body decodes as JSON. When \<open>json.loads\<close> raises a
  \<open>JSONDecodeError\<close> and the body, stripped of the white space around it, does not
  start with \<open><?xml\<close>, it returns the raw text as \<open>raw_response\<close> with the status
  \<open>success\<close>. When the stripped body starts with \<open><?xml\<close> it tries the XML decoder: a
  text that is not XML gives \<open>raw_xml\<close> with the \<open>parse_error\<close>; a document with no
  \<open>Call\<close> child of the root gives \<open>raw_xml\<close> marked \<open>parsed\<close>; a document with one
  gives, under \<open>Call\<close>, the text of each child of that element by its tag (the last
  child of a tag wins). In each of these cases a value is returned: neither a
  \<open>JSONDecodeError\<close> nor a failure of the XML decoder is raised.
\<close>

theorem decode_2xx_body:
  assumes "urlopen P (sent w) (form_request cfg endpoint data) = Http_2xx (Text text)"
  shows "(\<forall>v. json_loads P text = Inr v
            \<longrightarrow> fst (caller_make_exotel_request P cfg endpoint data w) = Inr v)
       \<and> (\<forall>m. json_loads P text = Inl (Exc JSONDecodeError m)
               \<and> \<not> prefix ''<?xml'' (str_strip text)
            \<longrightarrow> fst (caller_make_exotel_request P cfg endpoint data w)
                = Inr (PDict [(''raw_response'', PStr text), (''status'', PStr ''success'')]))
       \<and> (\<forall>m m'. json_loads P text = Inl (Exc JSONDecodeError m)
               \<and> prefix ''<?xml'' (str_strip text)
               \<and> et_fromstring P text = Inl m'
            \<longrightarrow> fst (caller_make_exotel_request P cfg endpoint data w)
                = Inr (PDict [(''raw_xml'', PStr text), (''parse_error'', PStr m')]))
       \<and> (\<forall>m root. json_loads P text = Inl (Exc JSONDecodeError m)
               \<and> prefix ''<?xml'' (str_strip text)
               \<and> et_fromstring P text = Inr root
               \<and> find (\<lambda>child. xml_tag child = ''Call'') (xml_children root) = None
            \<longrightarrow> fst (caller_make_exotel_request P cfg endpoint data w)
                = Inr (PDict [(''raw_xml'', PStr text), (''parsed'', PBool True)]))
       \<and> (\<forall>m root call_elem. json_loads P text = Inl (Exc JSONDecodeError m)
               \<and> prefix ''<?xml'' (str_strip text)
               \<and> et_fromstring P text = Inr root
               \<and> find (\<lambda>child. xml_tag child = ''Call'') (xml_children root) = Some call_elem
            \<longrightarrow> (\<exists>call_data.
                   fst (caller_make_exotel_request P cfg endpoint data w)
                     = Inr (PDict [(''Call'', PDict call_data)])
                   \<and> map_of call_data
                       = map_of (rev (map (\<lambda>child. (xml_tag child, opt_val (xml_text child)))
                                        (xml_children call_elem)))))
       \<and> ((\<exists>v. json_loads P text = Inr v) \<or> (\<exists>m. json_loads P text = Inl (Exc JSONDecodeError m))
            \<longrightarrow> (\<exists>v. fst (caller_make_exotel_request P cfg endpoint data w) = Inr v))"
proof -
  have call: "map_of (foldl (\<lambda>call_data child.
                               dict_set call_data (xml_tag child) (opt_val (xml_text child)))
                        [] children)
              = map_of (rev (map (\<lambda>child. (xml_tag child, opt_val (xml_text child))) children))"
    for children
    using map_of_collected [of "[]" children] by simp
  show ?thesis
    using assms
    by (auto simp: caller_make_exotel_request_def parse_xml_response_def Let_def call
          read_text_def
        split: sum.splits option.splits)
qed

theorem decode_2xx_body_witness:
  "fst (caller_make_exotel_request (body_provider ''{}'') caller_example_config
          ''Calls/connect'' [] world0) = Inr (PDict [])
   \<and> fst (caller_make_exotel_request (body_provider ''plain text'') caller_example_config
          ''Calls/connect'' [] world0)
       = Inr (PDict [(''raw_response'', PStr ''plain text''), (''status'', PStr ''success'')])
   \<and> fst (caller_make_exotel_request (body_provider ''<?xml broken'') caller_example_config
          ''Calls/connect'' [] world0)
       = Inr (PDict [(''raw_xml'', PStr ''<?xml broken''),
                     (''parse_error'', PStr ''unclosed token: line 1, column 0'')])
   \<and> fst (caller_make_exotel_request (body_provider padded_document) caller_example_config
          ''Calls/connect'' [] world0)
       = Inr (PDict [(''raw_xml'', PStr padded_document),
                     (''parse_error'',
                      PStr ''not well-formed (invalid token): line 1, column 0'')])
   \<and> fst (caller_make_exotel_request (body_provider empty_document) caller_example_config
          ''Calls/connect'' [] world0)
       = Inr (PDict [(''raw_xml'', PStr empty_document), (''parsed'', PBool True)])
   \<and> (\<exists>call_data.
         fst (caller_make_exotel_request (body_provider call_document) caller_example_config
                ''Calls/connect'' [] world0) = Inr (PDict [(''Call'', PDict call_data)])
         \<and> map_of call_data ''Sid'' = Some (PStr ''c1'')
         \<and> map_of call_data ''Status'' = Some (PStr ''queued''))
   \<and> (\<exists>v. fst (caller_make_exotel_request (body_provider bare_document) caller_example_config
                ''Calls/connect'' [] world0) = Inr v)"
proof -
  let ?req = "form_request caller_example_config ''Calls/connect'' []"
  let ?no = "''Expecting value: line 1 column 1 (char 0)''"
  have u: "urlopen (body_provider b) (sent world0) ?req = Http_2xx (Text b)" for b
    by (simp add: body_provider_def offline_def)
  have j: "json_loads (body_provider b) ''{}'' = Inr (PDict [])" for b
    by (simp add: body_provider_def offline_def)
  have c1: "fst (caller_make_exotel_request (body_provider ''{}'') caller_example_config
              ''Calls/connect'' [] world0) = Inr (PDict [])"
    using decode_2xx_body [OF u [of "''{}''"]] j by blast
  have j2: "json_loads (body_provider ''plain text'') ''plain text'' = Inl (Exc JSONDecodeError ?no)
            \<and> \<not> prefix ''<?xml'' (str_strip ''plain text'')"
    by code_simp
  have c2: "fst (caller_make_exotel_request (body_provider ''plain text'') caller_example_config
              ''Calls/connect'' [] world0)
            = Inr (PDict [(''raw_response'', PStr ''plain text''), (''status'', PStr ''success'')])"
    using decode_2xx_body [OF u [of "''plain text''"]] j2 by blast
  have j3: "json_loads (body_provider ''<?xml broken'') ''<?xml broken''
              = Inl (Exc JSONDecodeError ?no)
            \<and> prefix ''<?xml'' (str_strip ''<?xml broken'')
            \<and> et_fromstring (body_provider ''<?xml broken'') ''<?xml broken''
              = Inl ''unclosed token: line 1, column 0''"
    by code_simp
  have c3: "fst (caller_make_exotel_request (body_provider ''<?xml broken'') caller_example_config
              ''Calls/connect'' [] world0)
            = Inr (PDict [(''raw_xml'', PStr ''<?xml broken''),
                          (''parse_error'', PStr ''unclosed token: line 1, column 0'')])"
    using decode_2xx_body [OF u [of "''<?xml broken''"]] j3 by blast
  have j4: "json_loads (body_provider empty_document) empty_document
              = Inl (Exc JSONDecodeError ?no)
            \<and> prefix ''<?xml'' (str_strip empty_document)
            \<and> et_fromstring (body_provider empty_document) empty_document
              = Inr (Elem ''TwilioResponse'' None [])
            \<and> find (\<lambda>child. xml_tag child = ''Call'')
                 (xml_children (Elem ''TwilioResponse'' None [])) = None"
    by code_simp
  have c4: "fst (caller_make_exotel_request (body_provider empty_document) caller_example_config
              ''Calls/connect'' [] world0)
            = Inr (PDict [(''raw_xml'', PStr empty_document), (''parsed'', PBool True)])"
    using decode_2xx_body [OF u [of empty_document]] j4 by blast
  let ?call = "Elem ''Call'' None [Elem ''Sid'' (Some ''c1'') [], Elem ''Status'' (Some ''queued'') []]"
  have j5: "json_loads (body_provider call_document) call_document
              = Inl (Exc JSONDecodeError ?no)
            \<and> prefix ''<?xml'' (str_strip call_document)
            \<and> et_fromstring (body_provider call_document) call_document
              = Inr (Elem ''TwilioResponse'' None [?call])
            \<and> find (\<lambda>child. xml_tag child = ''Call'')
                 (xml_children (Elem ''TwilioResponse'' None [?call])) = Some ?call"
    by code_simp
  have "\<exists>call_data.
          fst (caller_make_exotel_request (body_provider call_document) caller_example_config
                 ''Calls/connect'' [] world0) = Inr (PDict [(''Call'', PDict call_data)])
          \<and> map_of call_data
              = map_of (rev (map (\<lambda>child. (xml_tag child, opt_val (xml_text child)))
                               (xml_children ?call)))"
    using decode_2xx_body [OF u [of call_document]] j5 by blast
  then obtain call_data where
    r: "fst (caller_make_exotel_request (body_provider call_document) caller_example_config
               ''Calls/connect'' [] world0) = Inr (PDict [(''Call'', PDict call_data)])"
    and m: "map_of call_data
              = map_of (rev (map (\<lambda>child. (xml_tag child, opt_val (xml_text child)))
                               (xml_children ?call)))"
    by blast
  have "map_of call_data ''Sid'' = Some (PStr ''c1'')"
    and "map_of call_data ''Status'' = Some (PStr ''queued'')"
    by (simp_all add: m opt_val_def)
  with r have c5: "\<exists>call_data.
         fst (caller_make_exotel_request (body_provider call_document) caller_example_config
                ''Calls/connect'' [] world0) = Inr (PDict [(''Call'', PDict call_data)])
         \<and> map_of call_data ''Sid'' = Some (PStr ''c1'')
         \<and> map_of call_data ''Status'' = Some (PStr ''queued'')"
    by blast
  have j6: "json_loads (body_provider padded_document) padded_document
              = Inl (Exc JSONDecodeError ?no)
            \<and> prefix ''<?xml'' (str_strip padded_document)
            \<and> et_fromstring (body_provider padded_document) padded_document
              = Inl ''not well-formed (invalid token): line 1, column 0''"
    by code_simp
  have c6: "fst (caller_make_exotel_request (body_provider padded_document) caller_example_config
              ''Calls/connect'' [] world0)
            = Inr (PDict [(''raw_xml'', PStr padded_document),
                          (''parse_error'',
                           PStr ''not well-formed (invalid token): line 1, column 0'')])"
    using decode_2xx_body [OF u [of padded_document]] j6 by blast
  have j7: "json_loads (body_provider bare_document) bare_document
              = Inl (Exc JSONDecodeError ?no)"
    by code_simp
  have c7: "\<exists>v. fst (caller_make_exotel_request (body_provider bare_document)
                       caller_example_config ''Calls/connect'' [] world0) = Inr v"
    using decode_2xx_body [OF u [of bare_document]] j7 by blast
  from c1 c2 c3 c4 c5 c6 c7 show ?thesis by blast
qed

section \<open>Missing configuration\<close>

text \<open>
  C9 at a run of the production script with \<open>--setup-fqdn-only\<close> and no
  \<open>EXO_AUTH_KEY\<close>: nothing validates the configuration, the trunk list request goes out
  with the credentials \<open>None:token\<close>, and the run ends with the status 1 after the
  provider has refused it, reporting that no active trunk was found.
\<close>

theorem setup_fqdn_only_sends_without_key:
  "missing_variables (load_configuration (example_env(''EXO_AUTH_KEY'' := None))) = [''EXO_AUTH_KEY'']
   \<and> fst (main_setup_fqdn_only unauthorized_provider
            (load_configuration (example_env(''EXO_AUTH_KEY'' := None))) world0) = 1
   \<and> sent (snd (main_setup_fqdn_only unauthorized_provider
                   (load_configuration (example_env(''EXO_AUTH_KEY'' := None))) world0))
       = [json_request ''GET'' ''https://api.in.exotel.com/v2/accounts/acct/trunks''
            ''None:token'' None]
   \<and> last (stdout (snd (main_setup_fqdn_only unauthorized_provider
                   (load_configuration (example_env(''EXO_AUTH_KEY'' := None))) world0)))
       = CHR 0x0A # sym_cross @ '' FQDN setup failed: No active trunk found''"
  by code_simp

text \<open>
  The command line of vapi_exotel_integration.py, when a credential is absent or empty:
  the run ends with the status 1, its last line names the three variables, and no
  request has been sent.
\<close>

lemma main_reports_missing_credentials:
  assumes "\<not> (opt_truthy (env ''EXO_AUTH_KEY'') \<and> opt_truthy (env ''EXO_AUTH_TOKEN'')
              \<and> opt_truthy (env ''EXO_ACCOUNT_SID''))"
  shows "fst (main P env fqdn phone trunk w) = 1
       \<and> sent (snd (main P env fqdn phone trunk w)) = sent w
       \<and> last (stdout (snd (main P env fqdn phone trunk w)))
           = ''   Error: Failed to add destination: '' @ missing_credentials"
proof -
  have m: "make_request P (load_config env) verb route payload w'
             = (Inl (Exc ValueError missing_credentials), w')" for verb route payload w'
    using assms by (auto simp: make_request_def load_config_def)
  have a: "add_vapi_destination P (load_config env) fqdn trunk w'
             = (failure (PStr missing_credentials), w')" for w'
    by (simp add: add_vapi_destination_def Let_def m)
  have c: "configure_vapi_integration P (load_config env) fqdn phone trunk w'
             = (Inr (PDict [(''vapi_fqdn'', PStr fqdn), (''phone_number'', PStr phone),
                   (''converted_fqdn'', PStr (convert_vapi_fqdn fqdn)),
                   (''trunk_sid'', PStr (opt_or trunk (default_trunk (load_config env)))),
                   (''steps'', PDict [(''destination'', failure (PStr missing_credentials))]),
                   (''success'', PBool False),
                   (''error'', PStr (''Failed to add destination: '' @ missing_credentials))]), w')" for w'
    by (simp add: configure_vapi_integration_def Let_def a failure_def py_item_def set_step_def py_str_def)
  show ?thesis
    by (simp add: main_def Let_def c py_item_def py_get_def py_print_def py_prints_def py_str_def)
qed

text \<open>
  A script that imports \<open>_client.py\<close> and posts, when one of the four variables is
  absent or empty: the process ends with the status 1 on a line that names the missing
  pair, and no request has been sent.
\<close>

lemma client_reports_missing_variables:
  assumes "\<not> (opt_truthy (env ''EXO_SUBSCRIBIX_DOMAIN'') \<and> opt_truthy (env ''EXO_ACCOUNT_SID'')
              \<and> opt_truthy (env ''EXO_AUTH_KEY'') \<and> opt_truthy (env ''EXO_AUTH_TOKEN''))"
  shows "fst (import_and_post P env path body_payload w) = Exited 1
       \<and> sent (snd (import_and_post P env path body_payload w)) = sent w
       \<and> last (stdout (snd (import_and_post P env path body_payload w)))
           \<in> {''Error: Missing required environment variables (EXO_SUBSCRIBIX_DOMAIN, EXO_ACCOUNT_SID)'',
               ''Error: Missing required environment variables (EXO_AUTH_KEY, EXO_AUTH_TOKEN)''}"
  using assms
  by (auto simp: import_and_post_def get_base_url_def post_def get_auth_header_def py_print_def Let_def)

end
